theory Spec2Isabelle
  imports Main "HOL-Library.Sublist"
begin

section \<open>VoiceCleaner: two-pass loudness normalisation (app.py)\<close>

text \<open>
  The program drives three external processes (ffprobe, an ffmpeg analysis pass and an
  ffmpeg encode pass).  Everything outside the repository is a parameter of the model:
  what a spawned child does, how \<^verbatim>\<open>json.loads\<close> decodes a text, how Python prints a float
  and how \<^verbatim>\<open>str()\<close> prints a JSON value that is not a string.  Python exceptions are
  values of type \<open>py_exc\<close>, and every function that can raise returns \<open>py_exc + 'a\<close>.
  Functions that spawn a process pass a state along: the state of the outside world and
  the list of argument vectors handed to \<^verbatim>\<open>subprocess.run\<close> so far.
\<close>

subsection \<open>Python values\<close>

datatype py_exc =
    RuntimeError string
  | KeyError string
  | TypeError
  | AttributeError
  | JSONDecodeError
  | CalledProcessError int
  | OSError string

text \<open>The name of the Python class of an exception.\<close>

fun exc_class :: "py_exc \<Rightarrow> string" where
  "exc_class (RuntimeError m) = ''RuntimeError''"
| "exc_class (KeyError k) = ''KeyError''"
| "exc_class TypeError = ''TypeError''"
| "exc_class AttributeError = ''AttributeError''"
| "exc_class JSONDecodeError = ''JSONDecodeError''"
| "exc_class (CalledProcessError n) = ''CalledProcessError''"
| "exc_class (OSError m) = ''OSError''"

text \<open>
  What \<^verbatim>\<open>json.loads\<close> returns.  \<open>'f\<close> is the type of Python floats.  A dict is an
  association list read with \<open>map_of\<close>.
\<close>

datatype 'f json =
    JNull
  | JBool bool
  | JInt int
  | JFloat 'f
  | JStr string
  | JArr "'f json list"
  | JObj "(string \<times> 'f json) list"

text \<open>A \<^verbatim>\<open>Path\<close> is represented by the text \<^verbatim>\<open>str()\<close> gives for it.\<close>

type_synonym path = string

text \<open>\<^verbatim>\<open>@dataclass(frozen=True) class LoudnormStats\<close>\<close>

record LoudnormStats =
  input_i :: string
  input_tp :: string
  input_lra :: string
  input_thresh :: string
  target_offset :: string

subsection \<open>The outside world\<close>

text \<open>What a child process leaves behind when it ends.\<close>

record child_exit =
  exit_code :: int
  out_text :: string
  err_text :: string

text \<open>\<^verbatim>\<open>subprocess.CompletedProcess\<close>: a stream that was not captured is \<^verbatim>\<open>None\<close>.\<close>

record CompletedProcess =
  returncode :: int
  stdout :: "string option"
  stderr :: "string option"

record ('w, 'f) platform =
  spawn :: "'w \<Rightarrow> string list \<Rightarrow> (py_exc + child_exit) \<times> 'w"
  json_decode :: "string \<Rightarrow> 'f json option"
  float_str :: "'f \<Rightarrow> string"
  value_str :: "'f json \<Rightarrow> string"

text \<open>
  \<open>spawn\<close> starts the program named by an argument vector in a world and waits for it:
  it gives the child's exit, or the exception the operating system raised instead
  (no such executable, for instance), and the world afterwards.
  \<open>json_decode\<close> is \<^verbatim>\<open>json.loads\<close> on a text, \<open>None\<close> when it raises \<^verbatim>\<open>JSONDecodeError\<close>.
  \<open>float_str\<close> is the text an f-string gives for a float.
  \<open>value_str\<close> is \<^verbatim>\<open>str()\<close> of a JSON value that is not a string.
\<close>

record 'w pstate =
  world :: 'w
  calls :: "string list list"

datatype stream_arg = PIPE | INHERIT

text \<open>
  \<^verbatim>\<open>subprocess.run(cmd, stdout=.., stderr=.., check=..)\<close> of the standard library, as
  documented: the child runs to its end, a stream is returned when it was piped, and
  with \<^verbatim>\<open>check=True\<close> a non-zero exit code raises \<^verbatim>\<open>CalledProcessError\<close>.
\<close>

definition subprocess_run ::
  "('w, 'f) platform \<Rightarrow> string list \<Rightarrow> stream_arg \<Rightarrow> stream_arg \<Rightarrow> bool \<Rightarrow> 'w pstate
     \<Rightarrow> (py_exc + CompletedProcess) \<times> 'w pstate" where
  "subprocess_run P cmd out_arg err_arg check st =
     (case spawn P (world st) cmd of (res, w') \<Rightarrow>
        let st' = \<lparr>world = w', calls = calls st @ [cmd]\<rparr> in
        (case res of
           Inl e \<Rightarrow> (Inl e, st')
         | Inr c \<Rightarrow>
             if check \<and> exit_code c \<noteq> 0 then (Inl (CalledProcessError (exit_code c)), st')
             else (Inr \<lparr>returncode = exit_code c,
                        stdout = (if out_arg = PIPE then Some (out_text c) else None),
                        stderr = (if err_arg = PIPE then Some (err_text c) else None)\<rparr>, st')))"

subsection \<open>Python primitives the program uses\<close>

text \<open>\<^verbatim>\<open>f"{x}"\<close> for \<^verbatim>\<open>x: str | None\<close>\<close>

fun fmt_opt :: "string option \<Rightarrow> string" where
  "fmt_opt None = ''None''"
| "fmt_opt (Some s) = s"

text \<open>\<^verbatim>\<open>sep.join(parts)\<close>\<close>

fun py_join :: "string \<Rightarrow> string list \<Rightarrow> string" where
  "py_join sep [] = []"
| "py_join sep [x] = x"
| "py_join sep (x # y # ys) = x @ sep @ py_join sep (y # ys)"

text \<open>\<^verbatim>\<open>json.loads(s)\<close>\<close>

definition json_loads :: "('w, 'f) platform \<Rightarrow> string option \<Rightarrow> py_exc + 'f json" where
  "json_loads P s =
     (case s of
        None \<Rightarrow> Inl TypeError
      | Some t \<Rightarrow> (case json_decode P t of None \<Rightarrow> Inl JSONDecodeError | Some v \<Rightarrow> Inr v))"

text \<open>\<^verbatim>\<open>v.get(k)\<close>: only a dict has the method.\<close>

fun dict_get :: "'f json \<Rightarrow> string \<Rightarrow> py_exc + 'f json option" where
  "dict_get (JObj kvs) k = Inr (map_of kvs k)"
| "dict_get v k = Inl AttributeError"

text \<open>\<^verbatim>\<open>v[k]\<close> with a string key: \<^verbatim>\<open>KeyError\<close> on a dict without it, \<^verbatim>\<open>TypeError\<close> elsewhere.\<close>

fun getitem :: "'f json \<Rightarrow> string \<Rightarrow> py_exc + 'f json" where
  "getitem (JObj kvs) k = (case map_of kvs k of None \<Rightarrow> Inl (KeyError k) | Some v \<Rightarrow> Inr v)"
| "getitem v k = Inl TypeError"

text \<open>\<^verbatim>\<open>str(v)\<close>\<close>

fun py_str :: "('w, 'f) platform \<Rightarrow> 'f json \<Rightarrow> string" where
  "py_str P (JStr s) = s"
| "py_str P v = value_str P v"

text \<open>The elements a \<^verbatim>\<open>for\<close> loop over a value visits.\<close>

fun py_iter :: "'f json \<Rightarrow> py_exc + 'f json list" where
  "py_iter (JArr xs) = Inr xs"
| "py_iter (JObj kvs) = Inr (map (\<lambda>kv. JStr (fst kv)) kvs)"
| "py_iter (JStr s) = Inr (map (\<lambda>c. JStr [c]) s)"
| "py_iter v = Inl TypeError"

subsection \<open>\<^verbatim>\<open>LOUDNORM_JSON_RE = re.compile(r"\{[\s\S]*\}")\<close>\<close>

text \<open>
  \<open>star_close\<close> matches \<^verbatim>\<open>[\s\S]*\}\<close> at the head of a text the way a backtracking matcher
  does: the star first takes one more character, and only when the rest cannot match
  does it stop and try the closing brace here.
\<close>

fun star_close :: "string \<Rightarrow> string option" where
  "star_close [] = None"
| "star_close (c # cs) =
     (case star_close cs of
        Some r \<Rightarrow> Some (c # r)
      | None \<Rightarrow> if c = CHR ''}'' then Some [c] else None)"

text \<open>\<^verbatim>\<open>LOUDNORM_JSON_RE.search(text)\<close> followed by \<^verbatim>\<open>m.group(0)\<close>: the leftmost match.\<close>

fun re_search :: "string \<Rightarrow> string option" where
  "re_search [] = None"
| "re_search (c # cs) =
     (if c = CHR ''{'' then
        (case star_close cs of Some r \<Rightarrow> Some (c # r) | None \<Rightarrow> re_search cs)
      else re_search cs)"

definition LOUDNORM_JSON_RE_search :: "string option \<Rightarrow> py_exc + string option" where
  "LOUDNORM_JSON_RE_search s = (case s of None \<Rightarrow> Inl TypeError | Some t \<Rightarrow> Inr (re_search t))"

subsection \<open>The program\<close>

text \<open>
  \<open>run\<close> asks for both streams to be piped and for no check of the exit code.  With
  \<^verbatim>\<open>text=True\<close> the streams come back as text, which is what \<open>out_text\<close> and \<open>err_text\<close>
  of a child are.
\<close>

definition run ::
  "('w, 'f) platform \<Rightarrow> string list \<Rightarrow> 'w pstate \<Rightarrow> (py_exc + CompletedProcess) \<times> 'w pstate" where
  "run P cmd st = subprocess_run P cmd PIPE PIPE False st"

definition ffprobe_json ::
  "('w, 'f) platform \<Rightarrow> path \<Rightarrow> 'w pstate \<Rightarrow> (py_exc + 'f json) \<times> 'w pstate" where
  "ffprobe_json P inp st =
     (let cmd = [''ffprobe'', ''-v'', ''error'', ''-print_format'', ''json'',
                 ''-show_streams'', ''-show_format'', inp]
      in case run P cmd st of
           (Inl e, st1) \<Rightarrow> (Inl e, st1)
         | (Inr p, st1) \<Rightarrow>
             if returncode p \<noteq> 0
             then (Inl (RuntimeError (''ffprobe failed:\<newline>'' @ fmt_opt (stderr p))), st1)
             else (json_loads P (stdout p), st1))"

text \<open>The loop of \<open>pick_audio_stream\<close> over the streams.\<close>

fun pick_audio_loop :: "'f json list \<Rightarrow> py_exc + 'f json option" where
  "pick_audio_loop [] = Inr None"
| "pick_audio_loop (s # ss) =
     (case dict_get s ''codec_type'' of
        Inl e \<Rightarrow> Inl e
      | Inr c \<Rightarrow> if c = Some (JStr ''audio'') then Inr (Some s) else pick_audio_loop ss)"

definition pick_audio_stream :: "'f json \<Rightarrow> py_exc + 'f json option" where
  "pick_audio_stream meta =
     (case dict_get meta ''streams'' of
        Inl e \<Rightarrow> Inl e
      | Inr sv \<Rightarrow>
          (case py_iter (case sv of None \<Rightarrow> JArr [] | Some v \<Rightarrow> v) of
             Inl e \<Rightarrow> Inl e
           | Inr ss \<Rightarrow> pick_audio_loop ss))"

definition build_base_filters :: string where
  "build_base_filters =
     (let parts = [
        ''highpass=f=90'',
        ''lowpass=f=8000'',
        ''anlmdn=s=0.00005:p=0.05'',
        ''agate=threshold=-35dB:ratio=2:attack=10:release=120'',
        ''acompressor=threshold=-18dB:ratio=3:attack=5:release=80:makeup=4'',
        ''alimiter=limit=0.98'']
      in py_join '','' parts)"

text \<open>
  Lines 94 to 101 of \<open>measure_loudnorm\<close>: the matched text is decoded and the five
  fields are read in the order the constructor call names them.
\<close>

definition stats_of_block :: "('w, 'f) platform \<Rightarrow> string \<Rightarrow> py_exc + LoudnormStats" where
  "stats_of_block P block =
     (case json_loads P (Some block) of
        Inl e \<Rightarrow> Inl e
      | Inr data \<Rightarrow>
     (case getitem data ''input_i'' of Inl e \<Rightarrow> Inl e | Inr v1 \<Rightarrow>
     (case getitem data ''input_tp'' of Inl e \<Rightarrow> Inl e | Inr v2 \<Rightarrow>
     (case getitem data ''input_lra'' of Inl e \<Rightarrow> Inl e | Inr v3 \<Rightarrow>
     (case getitem data ''input_thresh'' of Inl e \<Rightarrow> Inl e | Inr v4 \<Rightarrow>
     (case getitem data ''target_offset'' of Inl e \<Rightarrow> Inl e | Inr v5 \<Rightarrow>
        Inr \<lparr>input_i = py_str P v1,
             input_tp = py_str P v2,
             input_lra = py_str P v3,
             input_thresh = py_str P v4,
             target_offset = py_str P v5\<rparr>))))))"

definition measure_loudnorm ::
  "('w, 'f) platform \<Rightarrow> path \<Rightarrow> string \<Rightarrow> 'f \<Rightarrow> 'w pstate
     \<Rightarrow> (py_exc + LoudnormStats) \<times> 'w pstate" where
  "measure_loudnorm P inp base_filters target_i st =
     (let af = base_filters @ '',loudnorm=I='' @ float_str P target_i
                 @ '':TP=-1.5:LRA=11:print_format=json'';
          cmd = [''ffmpeg'', ''-hide_banner'', ''-nostdin'', ''-y'', ''-i'', inp,
                 ''-map'', ''0:a:0'', ''-vn'', ''-af'', af, ''-f'', ''null'', ''-'']
      in case run P cmd st of
           (Inl e, st1) \<Rightarrow> (Inl e, st1)
         | (Inr p, st1) \<Rightarrow>
             if returncode p \<noteq> 0
             then (Inl (RuntimeError (''ffmpeg loudnorm measure failed:\<newline>''
                                        @ fmt_opt (stderr p))), st1)
             else
               (case LOUDNORM_JSON_RE_search (stderr p) of
                  Inl e \<Rightarrow> (Inl e, st1)
                | Inr None \<Rightarrow>
                    (Inl (RuntimeError (''Could not parse loudnorm json from ffmpeg output:\<newline>''
                                          @ fmt_opt (stderr p))), st1)
                | Inr (Some block) \<Rightarrow> (stats_of_block P block, st1)))"

text \<open>The local \<open>loudnorm_apply\<close> of \<open>clean_video\<close> (lines 118 to 123).\<close>

definition loudnorm_apply :: "('w, 'f) platform \<Rightarrow> 'f \<Rightarrow> LoudnormStats \<Rightarrow> string" where
  "loudnorm_apply P target_i stats =
     ''loudnorm=I='' @ float_str P target_i @ '':TP=-1.5:LRA=11:''
     @ ''measured_I='' @ input_i stats @ '':measured_TP='' @ input_tp stats @ '':''
     @ ''measured_LRA='' @ input_lra stats @ '':measured_thresh='' @ input_thresh stats @ '':''
     @ ''offset='' @ target_offset stats @ '':linear=true:print_format=summary''"

definition clean_video ::
  "('w, 'f) platform \<Rightarrow> path \<Rightarrow> path \<Rightarrow> 'f \<Rightarrow> string \<Rightarrow> 'w pstate
     \<Rightarrow> (py_exc + unit) \<times> 'w pstate" where
  "clean_video P inp out target_i audio_bitrate st =
     (case ffprobe_json P inp st of
        (Inl e, st1) \<Rightarrow> (Inl e, st1)
      | (Inr meta, st1) \<Rightarrow>
     (case pick_audio_stream meta of
        Inl e \<Rightarrow> (Inl e, st1)
      | Inr None \<Rightarrow> (Inl (RuntimeError ''Input has no audio stream.''), st1)
      | Inr (Some astream) \<Rightarrow>
     (let base_filters = build_base_filters in
      case measure_loudnorm P inp base_filters target_i st1 of
        (Inl e, st2) \<Rightarrow> (Inl e, st2)
      | (Inr stats, st2) \<Rightarrow>
     (let af = base_filters @ '','' @ loudnorm_apply P target_i stats;
          cmd = [''ffmpeg'', ''-hide_banner'', ''-nostdin'', ''-y'', ''-i'', inp,
                 ''-map'', ''0:v:0'', ''-c:v'', ''copy'',
                 ''-map'', ''0:a:0'', ''-af'', af, ''-c:a'', ''aac'', ''-b:a'', audio_bitrate,
                 ''-movflags'', ''+faststart'', out]
      in case run P cmd st2 of
           (Inl e, st3) \<Rightarrow> (Inl e, st3)
         | (Inr p, st3) \<Rightarrow>
             if returncode p \<noteq> 0
             then (Inl (RuntimeError (''ffmpeg clean failed:\<newline>'' @ fmt_opt (stderr p))), st3)
             else (Inr (), st3)))))"

section \<open>Vocabulary of the specification\<close>

subsection \<open>The three argument vectors\<close>

text \<open>
  The argument vectors the three stages hand to \<open>run\<close>, named so that statements about
  the recorded calls stay readable.  The program's functions above build their vectors
  themselves; the lemmas below show that these are the ones they build.
\<close>

definition ffprobe_argv :: "path \<Rightarrow> string list" where
  "ffprobe_argv inp =
     [''ffprobe'', ''-v'', ''error'', ''-print_format'', ''json'',
      ''-show_streams'', ''-show_format'', inp]"

definition measure_af :: "('w, 'f) platform \<Rightarrow> string \<Rightarrow> 'f \<Rightarrow> string" where
  "measure_af P base_filters target_i =
     base_filters @ '',loudnorm=I='' @ float_str P target_i
       @ '':TP=-1.5:LRA=11:print_format=json''"

definition measure_argv :: "path \<Rightarrow> string \<Rightarrow> string list" where
  "measure_argv inp af =
     [''ffmpeg'', ''-hide_banner'', ''-nostdin'', ''-y'', ''-i'', inp,
      ''-map'', ''0:a:0'', ''-vn'', ''-af'', af, ''-f'', ''null'', ''-'']"

definition apply_argv :: "path \<Rightarrow> path \<Rightarrow> string \<Rightarrow> string \<Rightarrow> string list" where
  "apply_argv inp out af audio_bitrate =
     [''ffmpeg'', ''-hide_banner'', ''-nostdin'', ''-y'', ''-i'', inp,
      ''-map'', ''0:v:0'', ''-c:v'', ''copy'',
      ''-map'', ''0:a:0'', ''-af'', af, ''-c:a'', ''aac'', ''-b:a'', audio_bitrate,
      ''-movflags'', ''+faststart'', out]"

text \<open>The calls a run added to the record.\<close>

definition new_calls :: "'w pstate \<Rightarrow> 'w pstate \<Rightarrow> string list list" where
  "new_calls st st' = drop (length (calls st)) (calls st')"

subsection \<open>Reading a filter expression\<close>

text \<open>\<^verbatim>\<open>s.split(sep)\<close> for a separator of one character.\<close>

fun split_on :: "char \<Rightarrow> string \<Rightarrow> string list" where
  "split_on sep [] = [[]]"
| "split_on sep (c # cs) =
     (if c = sep then [] # split_on sep cs
      else (case split_on sep cs of [] \<Rightarrow> [[c]] | r # rs \<Rightarrow> (c # r) # rs))"

text \<open>
  The parameters of one filter \<^verbatim>\<open>name=k1=v1:k2=v2:...\<close>: what follows the first \<^verbatim>\<open>=\<close>,
  cut at the colons.
\<close>

definition filter_options :: "string \<Rightarrow> string list" where
  "filter_options f = split_on CHR '':'' (tl (dropWhile (\<lambda>c. c \<noteq> CHR ''='') f))"

text \<open>The text in front of the first occurrence of a pattern.\<close>

fun text_before :: "string \<Rightarrow> string \<Rightarrow> string option" where
  "text_before pat [] = (if pat = [] then Some [] else None)"
| "text_before pat (c # cs) =
     (if prefix pat (c # cs) then Some [] else map_option ((#) c) (text_before pat cs))"

text \<open>
  The base chain embedded in a filter argument: everything in front of the loudnorm
  stage that was appended to it.
\<close>

definition base_chain_of :: "string \<Rightarrow> string option" where
  "base_chain_of af = text_before '',loudnorm='' af"

subsection \<open>The brace-delimited block, in the words of the specification\<close>

text \<open>The text up to and including the last occurrence of a character, empty without one.\<close>

definition upto_last :: "char \<Rightarrow> string \<Rightarrow> string" where
  "upto_last c s = rev (dropWhile (\<lambda>x. x \<noteq> c) (rev s))"

text \<open>From the first \<^verbatim>\<open>{\<close> of the text to its last \<^verbatim>\<open>}\<close>.\<close>

definition first_to_last_brace :: "string \<Rightarrow> string option" where
  "first_to_last_brace s =
     (let m = upto_last CHR ''}'' (dropWhile (\<lambda>x. x \<noteq> CHR ''{'') s)
      in if m = [] then None else Some m)"

text \<open>The five fields of the report, in the order the program reads them.\<close>

definition loudnorm_fields :: "string list" where
  "loudnorm_fields =
     [''input_i'', ''input_tp'', ''input_lra'', ''input_thresh'', ''target_offset'']"

subsection \<open>Media descriptors\<close>

fun is_dict :: "'f json \<Rightarrow> bool" where
  "is_dict (JObj kvs) = True"
| "is_dict v = False"

text \<open>A stream entry whose codec type is audio.\<close>

fun is_audio :: "'f json \<Rightarrow> bool" where
  "is_audio (JObj kvs) = (map_of kvs ''codec_type'' = Some (JStr ''audio''))"
| "is_audio v = False"

text \<open>
  A media descriptor is what ffprobe prints: an object whose \<^verbatim>\<open>streams\<close> entry, when
  there is one, is a list of objects.
\<close>

fun is_media_descriptor :: "'f json \<Rightarrow> bool" where
  "is_media_descriptor (JObj kvs) =
     (case map_of kvs ''streams'' of
        None \<Rightarrow> True
      | Some (JArr ss) \<Rightarrow> list_all is_dict ss
      | Some v \<Rightarrow> False)"
| "is_media_descriptor v = False"

fun streams_of :: "'f json \<Rightarrow> 'f json list" where
  "streams_of (JObj kvs) = (case map_of kvs ''streams'' of Some (JArr ss) \<Rightarrow> ss | _ \<Rightarrow> [])"
| "streams_of v = []"

section \<open>A scripted platform and sample runs\<close>

text \<open>
  A platform for concrete runs: the world is the list of what the next children will do,
  each spawn takes the head of it; \<^verbatim>\<open>json.loads\<close> is a table; a float is represented by
  the text Python prints for it.
\<close>

definition scripted ::
  "(string \<times> string json) list \<Rightarrow> ((py_exc + child_exit) list, string) platform" where
  "scripted table =
     \<lparr>spawn = (\<lambda>w cmd. case w of [] \<Rightarrow> (Inl (OSError ''no child''), []) | r # rs \<Rightarrow> (r, rs)),
      json_decode = map_of table,
      float_str = (\<lambda>x. x),
      value_str = (\<lambda>v. ''?'')\<rparr>"

definition exited :: "int \<Rightarrow> string \<Rightarrow> string \<Rightarrow> py_exc + child_exit" where
  "exited rc out err = Inr \<lparr>exit_code = rc, out_text = out, err_text = err\<rparr>"

definition start :: "'w \<Rightarrow> 'w pstate" where
  "start w = \<lparr>world = w, calls = []\<rparr>"

definition clip_stdout :: string where
  \<open>clip_stdout = ''{"streams":[{"codec_type":"video"},{"codec_type":"audio"}],"format":{}}''\<close>

definition clip_meta :: "string json" where
  "clip_meta =
     JObj [(''streams'', JArr [JObj [(''codec_type'', JStr ''video'')],
                               JObj [(''codec_type'', JStr ''audio'')]]),
           (''format'', JObj [])]"

definition silent_stdout :: string where
  \<open>silent_stdout = ''{"streams":[{"codec_type":"video"}],"format":{}}''\<close>

definition silent_meta :: "string json" where
  "silent_meta =
     JObj [(''streams'', JArr [JObj [(''codec_type'', JStr ''video'')]]),
           (''format'', JObj [])]"

definition audio_only_stdout :: string where
  \<open>audio_only_stdout = ''{"streams":[{"codec_type":"audio"}],"format":{}}''\<close>

definition audio_only_meta :: "string json" where
  "audio_only_meta =
     JObj [(''streams'', JArr [JObj [(''codec_type'', JStr ''audio'')]]),
           (''format'', JObj [])]"

definition sample_report :: string where
  \<open>sample_report = ''{"input_i":"-23.1","input_tp":"-2.0","input_lra":"7.3","input_thresh":"-33.5","target_offset":"1.2"}''\<close>

definition sample_report_json :: "string json" where
  "sample_report_json =
     JObj [(''input_i'', JStr ''-23.1''), (''input_tp'', JStr ''-2.0''),
           (''input_lra'', JStr ''7.3''), (''input_thresh'', JStr ''-33.5''),
           (''target_offset'', JStr ''1.2'')]"

definition sample_stats :: LoudnormStats where
  "sample_stats =
     \<lparr>input_i = ''-23.1'', input_tp = ''-2.0'', input_lra = ''7.3'',
      input_thresh = ''-33.5'', target_offset = ''1.2''\<rparr>"

definition partial_report :: string where
  \<open>partial_report = ''{"input_i":"-23.1"}''\<close>

definition partial_report_json :: "string json" where
  "partial_report_json = JObj [(''input_i'', JStr ''-23.1'')]"

definition sample_table :: "(string \<times> string json) list" where
  "sample_table =
     [(clip_stdout, clip_meta), (silent_stdout, silent_meta),
      (audio_only_stdout, audio_only_meta),
      (sample_report, sample_report_json), (partial_report, partial_report_json)]"

text \<open>The diagnostic text of an analysis pass around a report.\<close>

definition analysis_log :: "string \<Rightarrow> string" where
  "analysis_log report = ''[Parsed_loudnorm_6 @ 0x55d0]\<newline>'' @ report @ ''\<newline>''"

text \<open>The class of the exception a result stands for, \<open>None\<close> for a value.\<close>

fun raised_class :: "py_exc + 'a \<Rightarrow> string option" where
  "raised_class (Inl e) = Some (exc_class e)"
| "raised_class (Inr v) = None"

section \<open>Properties of the stages\<close>

subsection \<open>The process invoker\<close>

lemma run_eq:
  "run P cmd st =
     (case spawn P (world st) cmd of
        (Inl e, w') \<Rightarrow> (Inl e, \<lparr>world = w', calls = calls st @ [cmd]\<rparr>)
      | (Inr c, w') \<Rightarrow>
          (Inr \<lparr>returncode = exit_code c, stdout = Some (out_text c),
                 stderr = Some (err_text c)\<rparr>,
           \<lparr>world = w', calls = calls st @ [cmd]\<rparr>))"
  by (simp add: run_def subprocess_run_def split: prod.splits sum.splits)

lemma run_calls: "calls (snd (run P cmd st)) = calls st @ [cmd]"
  by (simp add: run_eq split: prod.splits sum.splits)

subsection \<open>Each stage as one spawn\<close>

lemma ffprobe_json_eq:
  "ffprobe_json P inp st =
     (case spawn P (world st) (ffprobe_argv inp) of
        (res, w) \<Rightarrow>
          ((case res of
              Inl e \<Rightarrow> Inl e
            | Inr c \<Rightarrow>
                if exit_code c \<noteq> 0
                then Inl (RuntimeError (''ffprobe failed:\<newline>'' @ err_text c))
                else json_loads P (Some (out_text c))),
           \<lparr>world = w, calls = calls st @ [ffprobe_argv inp]\<rparr>))"
  by (simp add: ffprobe_json_def ffprobe_argv_def run_eq Let_def split: prod.splits sum.splits)

lemma ffprobe_json_calls:
  "calls (snd (ffprobe_json P inp st)) = calls st @ [ffprobe_argv inp]"
  by (simp add: ffprobe_json_eq split: prod.splits)

lemma measure_loudnorm_eq:
  "measure_loudnorm P inp bf t st =
     (case spawn P (world st) (measure_argv inp (measure_af P bf t)) of
        (res, w) \<Rightarrow>
          ((case res of
              Inl e \<Rightarrow> Inl e
            | Inr c \<Rightarrow>
                if exit_code c \<noteq> 0
                then Inl (RuntimeError (''ffmpeg loudnorm measure failed:\<newline>'' @ err_text c))
                else (case re_search (err_text c) of
                        None \<Rightarrow>
                          Inl (RuntimeError
                                 (''Could not parse loudnorm json from ffmpeg output:\<newline>''
                                    @ err_text c))
                      | Some block \<Rightarrow> stats_of_block P block)),
           \<lparr>world = w, calls = calls st @ [measure_argv inp (measure_af P bf t)]\<rparr>))"
  by (simp add: measure_loudnorm_def measure_argv_def measure_af_def run_eq Let_def
        LOUDNORM_JSON_RE_search_def split: prod.splits sum.splits option.splits)

lemma measure_loudnorm_calls:
  "calls (snd (measure_loudnorm P inp bf t st))
     = calls st @ [measure_argv inp (measure_af P bf t)]"
  by (simp add: measure_loudnorm_eq split: prod.splits)

lemma clean_video_probe_raised:
  "ffprobe_json P inp st = (Inl e, st1) \<Longrightarrow> clean_video P inp out t br st = (Inl e, st1)"
  by (simp add: clean_video_def)

lemma clean_video_pick_raised:
  "ffprobe_json P inp st = (Inr meta, st1) \<Longrightarrow> pick_audio_stream meta = Inl e \<Longrightarrow>
   clean_video P inp out t br st = (Inl e, st1)"
  by (simp add: clean_video_def)

lemma clean_video_no_audio:
  "ffprobe_json P inp st = (Inr meta, st1) \<Longrightarrow> pick_audio_stream meta = Inr None \<Longrightarrow>
   clean_video P inp out t br st = (Inl (RuntimeError ''Input has no audio stream.''), st1)"
  by (simp add: clean_video_def)

lemma clean_video_measure:
  "ffprobe_json P inp st = (Inr meta, st1) \<Longrightarrow> pick_audio_stream meta = Inr (Some a) \<Longrightarrow>
   measure_loudnorm P inp build_base_filters t st1 = (Inl e, st2) \<Longrightarrow>
   clean_video P inp out t br st = (Inl e, st2)"
  by (simp add: clean_video_def)

lemma clean_video_encode:
  "ffprobe_json P inp st = (Inr meta, st1) \<Longrightarrow> pick_audio_stream meta = Inr (Some a) \<Longrightarrow>
   measure_loudnorm P inp build_base_filters t st1 = (Inr stats, st2) \<Longrightarrow>
   clean_video P inp out t br st =
     (case spawn P (world st2)
             (apply_argv inp out (build_base_filters @ '','' @ loudnorm_apply P t stats) br) of
        (res, w) \<Rightarrow>
          ((case res of
              Inl e \<Rightarrow> Inl e
            | Inr c \<Rightarrow>
                if exit_code c \<noteq> 0
                then Inl (RuntimeError (''ffmpeg clean failed:\<newline>'' @ err_text c))
                else Inr ()),
           \<lparr>world = w,
            calls = calls st2
              @ [apply_argv inp out (build_base_filters @ '','' @ loudnorm_apply P t stats) br]\<rparr>))"
  by (simp add: clean_video_def apply_argv_def run_eq Let_def split: prod.splits sum.splits)

subsection \<open>The calls of a whole run\<close>

lemma clean_video_calls:
  "\<exists>stats.
     new_calls st (snd (clean_video P inp out t br st)) \<in>
       {[ffprobe_argv inp],
        [ffprobe_argv inp, measure_argv inp (measure_af P build_base_filters t)],
        [ffprobe_argv inp, measure_argv inp (measure_af P build_base_filters t),
         apply_argv inp out (build_base_filters @ '','' @ loudnorm_apply P t stats) br]}"
proof -
  obtain r1 st1 where probe: "ffprobe_json P inp st = (r1, st1)"
    by (cases "ffprobe_json P inp st")
  have c1: "calls st1 = calls st @ [ffprobe_argv inp]"
    using ffprobe_json_calls [of P inp st] probe by simp
  show ?thesis
  proof (cases r1)
    case (Inl e)
    with probe c1 show ?thesis
      by (simp add: clean_video_probe_raised new_calls_def)
  next
    case (Inr meta)
    note meta = this
    show ?thesis
    proof (cases "pick_audio_stream meta")
      case (Inl e)
      with probe meta c1 show ?thesis
        by (simp add: clean_video_pick_raised new_calls_def)
    next
      case (Inr found)
      note found = this
      show ?thesis
      proof (cases found)
        case None
        with probe meta found c1 show ?thesis
          by (simp add: clean_video_no_audio new_calls_def)
      next
        case (Some a)
        obtain r2 st2 where meas: "measure_loudnorm P inp build_base_filters t st1 = (r2, st2)"
          by (cases "measure_loudnorm P inp build_base_filters t st1")
        have c2: "calls st2 = calls st
                    @ [ffprobe_argv inp, measure_argv inp (measure_af P build_base_filters t)]"
          using measure_loudnorm_calls [of P inp build_base_filters t st1] meas c1 by simp
        show ?thesis
        proof (cases r2)
          case (Inl e)
          have "clean_video P inp out t br st = (Inl e, st2)"
            using probe meta found Some meas Inl by (simp add: clean_video_measure)
          with c2 show ?thesis by (simp add: new_calls_def)
        next
          case (Inr stats)
          have "calls (snd (clean_video P inp out t br st)) = calls st2
                  @ [apply_argv inp out (build_base_filters @ '','' @ loudnorm_apply P t stats) br]"
            using probe meta found Some meas Inr
            by (simp add: clean_video_encode split: prod.splits)
          with c2 have "new_calls st (snd (clean_video P inp out t br st)) =
              [ffprobe_argv inp, measure_argv inp (measure_af P build_base_filters t),
               apply_argv inp out (build_base_filters @ '','' @ loudnorm_apply P t stats) br]"
            by (simp add: new_calls_def)
          then show ?thesis by blast
        qed
      qed
    qed
  qed
qed

subsection \<open>The base chain\<close>

lemma build_base_filters_text:
  "build_base_filters =
     ''highpass=f=90,lowpass=f=8000,anlmdn=s=0.00005:p=0.05,agate=threshold=-35dB:ratio=2:attack=10:release=120,acompressor=threshold=-18dB:ratio=3:attack=5:release=80:makeup=4,alimiter=limit=0.98''"
  by (simp add: build_base_filters_def)

lemma base_chain_of_base:
  "base_chain_of (build_base_filters @ '',loudnorm='' @ rest) = Some build_base_filters"
  by (simp add: build_base_filters_text base_chain_of_def)

lemma base_chain_of_measure_af:
  "base_chain_of (measure_af P build_base_filters t) = Some build_base_filters"
  using base_chain_of_base
    [of "''I='' @ float_str P t @ '':TP=-1.5:LRA=11:print_format=json''"]
  by (simp add: measure_af_def)

lemma base_chain_of_apply_af:
  "base_chain_of (build_base_filters @ '','' @ loudnorm_apply P t stats) = Some build_base_filters"
  using base_chain_of_base [of "drop 9 (loudnorm_apply P t stats)"]
  by (simp add: loudnorm_apply_def)

subsection \<open>The regular expression\<close>

lemma upto_last_Nil [simp]: "upto_last c [] = []"
  by (simp add: upto_last_def)

lemma upto_last_Cons:
  "upto_last c (x # xs) =
     (if upto_last c xs = [] then (if x = c then [x] else []) else x # upto_last c xs)"
  by (auto simp: upto_last_def dropWhile_append split: if_splits)

lemma upto_last_empty_iff: "upto_last c s = [] \<longleftrightarrow> c \<notin> set s"
  by (auto simp: upto_last_def)

lemma upto_last_closed:
  "c \<notin> set post \<Longrightarrow> upto_last c (mid @ c # post) = mid @ [c]"
  by (auto simp: upto_last_def dropWhile_append)

lemma star_close_upto_last:
  "star_close s = (if upto_last CHR ''}'' s = [] then None else Some (upto_last CHR ''}'' s))"
  by (induction s) (simp_all add: upto_last_Cons)

lemma star_close_None: "CHR ''}'' \<notin> set s \<Longrightarrow> star_close s = None"
  by (simp add: star_close_upto_last upto_last_empty_iff)

lemma re_search_None: "CHR ''}'' \<notin> set s \<Longrightarrow> re_search s = None"
  by (induction s) (simp_all add: star_close_None)

lemma re_search_first_to_last: "re_search s = first_to_last_brace s"
proof (induction s)
  case Nil
  show ?case by (simp add: first_to_last_brace_def)
next
  case (Cons c cs)
  show ?case
  proof (cases "c = CHR ''{''")
    case True
    then show ?thesis
      by (simp add: first_to_last_brace_def star_close_upto_last upto_last_Cons
            re_search_None upto_last_empty_iff)
  next
    case False
    with Cons show ?thesis by (simp add: first_to_last_brace_def)
  qed
qed

lemma upto_last_decomp:
  assumes "upto_last c s \<noteq> []"
  shows "\<exists>mid post. s = mid @ c # post \<and> c \<notin> set post \<and> upto_last c s = mid @ [c]"
proof -
  let ?d = "dropWhile (\<lambda>x. x \<noteq> c) (rev s)"
  from assms have ne: "?d \<noteq> []" by (simp add: upto_last_def)
  then have "hd ?d = c"
    using hd_dropWhile [of "\<lambda>x. x \<noteq> c" "rev s"] by simp
  with ne obtain ys where ys: "?d = c # ys"
    by (cases ?d) auto
  have "rev s = takeWhile (\<lambda>x. x \<noteq> c) (rev s) @ c # ys"
    using takeWhile_dropWhile_id [of "\<lambda>x. x \<noteq> c" "rev s"] ys by simp
  then have "rev (rev s) = rev (takeWhile (\<lambda>x. x \<noteq> c) (rev s) @ c # ys)"
    by simp
  then have "s = rev ys @ c # rev (takeWhile (\<lambda>x. x \<noteq> c) (rev s))"
    by simp
  moreover have "c \<notin> set (rev (takeWhile (\<lambda>x. x \<noteq> c) (rev s)))"
    by (auto dest: set_takeWhileD)
  moreover have "upto_last c s = rev ys @ [c]"
    by (simp add: upto_last_def ys)
  ultimately show ?thesis by blast
qed

lemma first_to_last_brace_Some_iff:
  "first_to_last_brace s = Some m \<longleftrightarrow>
     (\<exists>pre mid post. s = pre @ CHR ''{'' # mid @ CHR ''}'' # post
        \<and> CHR ''{'' \<notin> set pre \<and> CHR ''}'' \<notin> set post \<and> m = CHR ''{'' # mid @ [CHR ''}''])"
  (is "?L \<longleftrightarrow> ?R")
proof
  assume L: ?L
  define t where "t = dropWhile (\<lambda>x. x \<noteq> CHR ''{'') s"
  define pre where "pre = takeWhile (\<lambda>x. x \<noteq> CHR ''{'') s"
  have s: "s = pre @ t" by (simp add: t_def pre_def)
  have pre: "CHR ''{'' \<notin> set pre" by (auto simp: pre_def dest: set_takeWhileD)
  from L have m: "upto_last CHR ''}'' t = m" and ne: "upto_last CHR ''}'' t \<noteq> []"
    by (auto simp: first_to_last_brace_def t_def Let_def split: if_splits)
  from upto_last_decomp [OF ne] obtain mid' post
    where t: "t = mid' @ CHR ''}'' # post" and post: "CHR ''}'' \<notin> set post"
      and u: "upto_last CHR ''}'' t = mid' @ [CHR ''}'']"
    by blast
  from t have "t \<noteq> []" by simp
  then have "hd t = CHR ''{''"
    unfolding t_def using hd_dropWhile [of "\<lambda>x. x \<noteq> CHR ''{''" s] by simp
  with t obtain mid where mid: "mid' = CHR ''{'' # mid"
    by (cases mid') auto
  from s t mid have "s = pre @ CHR ''{'' # mid @ CHR ''}'' # post" by simp
  moreover from m u mid have "m = CHR ''{'' # mid @ [CHR ''}'']" by simp
  ultimately show ?R using pre post by blast
next
  assume ?R
  then obtain pre mid post where s: "s = pre @ CHR ''{'' # mid @ CHR ''}'' # post"
    and pre: "CHR ''{'' \<notin> set pre" and post: "CHR ''}'' \<notin> set post"
    and m: "m = CHR ''{'' # mid @ [CHR ''}'']"
    by blast
  from pre have "dropWhile (\<lambda>x. x \<noteq> CHR ''{'') s = CHR ''{'' # mid @ CHR ''}'' # post"
    unfolding s by (subst dropWhile_append2) auto
  moreover have "upto_last CHR ''}'' (CHR ''{'' # mid @ CHR ''}'' # post)
                   = CHR ''{'' # mid @ [CHR ''}'']"
    using upto_last_closed [OF post, of "CHR ''{'' # mid"] by simp
  ultimately show ?L by (simp add: first_to_last_brace_def m)
qed

subsection \<open>The audio-stream selector\<close>

lemma pick_audio_loop_find:
  "list_all is_dict ss \<Longrightarrow> pick_audio_loop ss = Inr (find is_audio ss)"
proof (induction ss)
  case Nil
  show ?case by simp
next
  case (Cons s ss)
  then obtain kvs where "s = JObj kvs" by (cases s) simp_all
  with Cons show ?case by simp
qed

lemma pick_audio_stream_find:
  "is_media_descriptor meta \<Longrightarrow> pick_audio_stream meta = Inr (find is_audio (streams_of meta))"
proof (cases meta)
  case (JObj kvs)
  assume "is_media_descriptor meta"
  with JObj show ?thesis
    by (auto simp: pick_audio_stream_def pick_audio_loop_find
          split: option.splits json.splits)
qed simp_all

section \<open>The claims\<close>

subsection \<open>C6: the base filter chain\<close>

text \<open>
  C6.  \<open>build_base_filters\<close> takes no argument and is the comma-joined text of six filter
  expressions, in this order: high-pass at 90 Hz, low-pass at 8000 Hz, the non-local-means
  denoiser with strength 0.00005 and smoothing 0.05, the gate with threshold -35 dB,
  ratio 2, attack 10 and release 120, the compressor with threshold -18 dB, ratio 3,
  attack 5, release 80 and makeup 4, and the limiter with limit 0.98.  Cutting the text at
  its commas gives exactly these six expressions back.
\<close>

theorem build_base_filters_six_stages:
  "build_base_filters =
     ''highpass=f=90,lowpass=f=8000,anlmdn=s=0.00005:p=0.05,agate=threshold=-35dB:ratio=2:attack=10:release=120,acompressor=threshold=-18dB:ratio=3:attack=5:release=80:makeup=4,alimiter=limit=0.98''
   \<and> split_on CHR '','' build_base_filters =
     [''highpass=f=90'',
      ''lowpass=f=8000'',
      ''anlmdn=s=0.00005:p=0.05'',
      ''agate=threshold=-35dB:ratio=2:attack=10:release=120'',
      ''acompressor=threshold=-18dB:ratio=3:attack=5:release=80:makeup=4'',
      ''alimiter=limit=0.98'']"
  by (simp add: build_base_filters_def)

subsection \<open>C9: the process invoker\<close>

text \<open>
  C9.  For every argument vector whose child was spawned, \<open>run\<close> returns the child's exit
  code together with all of its standard output and all of its standard error as text,
  whatever the exit code is: a non-zero exit code raises nothing.  The call is recorded
  and the world is the one the child left.
\<close>

theorem run_returns_exit_code_and_streams:
  assumes "spawn P (world st) cmd = (Inr c, w)"
  shows "run P cmd st =
           (Inr \<lparr>returncode = exit_code c, stdout = Some (out_text c),
                  stderr = Some (err_text c)\<rparr>,
            \<lparr>world = w, calls = calls st @ [cmd]\<rparr>)"
  using assms by (simp add: run_def subprocess_run_def)

text \<open>A child that ends with exit code 1: \<open>run\<close> returns it and raises nothing.\<close>

theorem run_returns_exit_code_and_streams_witness:
  "run (scripted []) [''ffmpeg'', ''-version''] (start [exited 1 ''out'' ''err'']) =
     (Inr \<lparr>returncode = 1, stdout = Some ''out'', stderr = Some ''err''\<rparr>,
      \<lparr>world = [], calls = [[''ffmpeg'', ''-version'']]\<rparr>)"
proof -
  have h: "spawn (scripted []) (world (start [exited 1 ''out'' ''err'']))
             [''ffmpeg'', ''-version'']
           = (Inr \<lparr>exit_code = 1, out_text = ''out'', err_text = ''err''\<rparr>, [])"
    by (simp add: scripted_def start_def exited_def)
  show ?thesis
    using run_returns_exit_code_and_streams [OF h] by (simp add: start_def)
qed

subsection \<open>C8: the audio-stream selector\<close>

lemma find_after_none:
  "filter Q pre = [] \<Longrightarrow> Q a \<Longrightarrow> find Q (pre @ a # post) = Some a"
  by (induction pre) (auto split: if_splits)

lemma find_filter_empty: "filter Q xs = [] \<Longrightarrow> find Q xs = None"
  by (induction xs) (auto split: if_splits)

text \<open>
  C8.  For every media descriptor, \<open>pick_audio_stream\<close> raises nothing and returns the
  first entry of the stream list whose codec type is \<^verbatim>\<open>audio\<close>: entries of other codec
  types in front of it are skipped, and when no entry is an audio stream the result is
  \<^verbatim>\<open>None\<close>.
\<close>

theorem pick_audio_stream_first_audio:
  assumes "is_media_descriptor meta"
  shows "pick_audio_stream meta = Inr (find is_audio (streams_of meta))
       \<and> (\<forall>pre a post.
            streams_of meta = pre @ a # post \<and> filter is_audio pre = [] \<and> is_audio a
              \<longrightarrow> pick_audio_stream meta = Inr (Some a))
       \<and> (filter is_audio (streams_of meta) = [] \<longrightarrow> pick_audio_stream meta = Inr None)"
  using pick_audio_stream_find [OF assms]
  by (auto simp: find_after_none find_filter_empty)

text \<open>A video stream, a subtitle stream and two audio streams: the first audio stream.\<close>

theorem pick_audio_stream_first_audio_witness:
  "pick_audio_stream
     (JObj [(''streams'',
             JArr [JObj [(''index'', JInt 0), (''codec_type'', JStr ''video'')],
                   JObj [(''index'', JInt 1), (''codec_type'', JStr ''subtitle'')],
                   JObj [(''index'', JInt 2), (''codec_type'', JStr ''audio'')],
                   JObj [(''index'', JInt 3), (''codec_type'', JStr ''audio'')]])])
   = Inr (Some (JObj [(''index'', JInt 2), (''codec_type'', JStr ''audio'')]))
   \<and> pick_audio_stream silent_meta = Inr None"
proof -
  let ?meta = "JObj [(''streams'',
             JArr [JObj [(''index'', JInt 0), (''codec_type'', JStr ''video'')],
                   JObj [(''index'', JInt 1), (''codec_type'', JStr ''subtitle'')],
                   JObj [(''index'', JInt 2), (''codec_type'', JStr ''audio'')],
                   JObj [(''index'', JInt 3), (''codec_type'', JStr ''audio'')]])]"
  have h1: "is_media_descriptor ?meta" by simp
  have h2: "is_media_descriptor silent_meta" by (simp add: silent_meta_def)
  have a: "pick_audio_stream ?meta = Inr (find is_audio (streams_of ?meta))"
    using pick_audio_stream_first_audio [OF h1] by (rule conjunct1)
  have b: "pick_audio_stream silent_meta = Inr (find is_audio (streams_of silent_meta))"
    using pick_audio_stream_first_audio [OF h2] by (rule conjunct1)
  have "find is_audio (streams_of silent_meta) = None"
    by (simp add: silent_meta_def)
  with a b show ?thesis by simp
qed

subsection \<open>C7: the greedy brace scan\<close>

text \<open>
  C7.  The regular expression finds a block exactly when the text has a \<^verbatim>\<open>{\<close> with a
  \<^verbatim>\<open>}\<close> somewhere after it, and the block then runs from the first \<^verbatim>\<open>{\<close> of the text to
  the last \<^verbatim>\<open>}\<close> of the text, so that a later unrelated \<^verbatim>\<open>}\<close> extends it.  This is the
  definition in the words of the specification.  After a successful analysis pass this
  block, and nothing else of the diagnostic text, is what is decoded and read for the
  five fields.
\<close>

theorem loudnorm_json_is_first_brace_to_last_brace:
  "(re_search s = Some m \<longleftrightarrow>
      (\<exists>pre mid post. s = pre @ CHR ''{'' # mid @ CHR ''}'' # post
         \<and> CHR ''{'' \<notin> set pre \<and> CHR ''}'' \<notin> set post \<and> m = CHR ''{'' # mid @ [CHR ''}'']))
   \<and> re_search s = first_to_last_brace s
   \<and> (spawn P (world st) (measure_argv inp (measure_af P bf t)) = (Inr c, w)
        \<and> exit_code c = 0 \<and> re_search (err_text c) = Some block
      \<longrightarrow> fst (measure_loudnorm P inp bf t st) = stats_of_block P block)"
proof (intro conjI impI)
  show "re_search s = Some m \<longleftrightarrow>
      (\<exists>pre mid post. s = pre @ CHR ''{'' # mid @ CHR ''}'' # post
         \<and> CHR ''{'' \<notin> set pre \<and> CHR ''}'' \<notin> set post \<and> m = CHR ''{'' # mid @ [CHR ''}''])"
    by (simp only: re_search_first_to_last first_to_last_brace_Some_iff)
  show "re_search s = first_to_last_brace s"
    by (rule re_search_first_to_last)
  assume "spawn P (world st) (measure_argv inp (measure_af P bf t)) = (Inr c, w)
        \<and> exit_code c = 0 \<and> re_search (err_text c) = Some block"
  then show "fst (measure_loudnorm P inp bf t st) = stats_of_block P block"
    by (simp add: measure_loudnorm_eq)
qed

text \<open>
  A text with a closing brace in front of the first opening one and braces after the
  report, and an analysis pass whose diagnostic text has one more \<^verbatim>\<open>}\<close> after the report:
  the block runs to that last brace and no longer decodes.
\<close>

theorem loudnorm_json_is_first_brace_to_last_brace_witness:
  "re_search ''x} a{b}c{d}e}f{g'' = Some ''{b}c{d}e}''
   \<and> fst (measure_loudnorm (scripted sample_table) ''clip.mp4'' build_base_filters ''-16.0''
            (start [exited 0 [] (analysis_log sample_report)])) = Inr sample_stats
   \<and> fst (measure_loudnorm (scripted sample_table) ''clip.mp4'' build_base_filters ''-16.0''
            (start [exited 0 [] (analysis_log sample_report @ ''[out#0] }'')]))
       = Inl JSONDecodeError"
proof -
  let ?P = "scripted sample_table"
  let ?argv = "measure_argv ''clip.mp4'' (measure_af ?P build_base_filters ''-16.0'')"
  have ex: "\<exists>pre mid post. ''x} a{b}c{d}e}f{g'' = pre @ CHR ''{'' # mid @ CHR ''}'' # post
         \<and> CHR ''{'' \<notin> set pre \<and> CHR ''}'' \<notin> set post
         \<and> ''{b}c{d}e}'' = CHR ''{'' # mid @ [CHR ''}'']"
    by (rule exI [of _ "''x} a''"], rule exI [of _ "''b}c{d}e''"], rule exI [of _ "''f{g''"])
       simp
  have iff: "re_search ''x} a{b}c{d}e}f{g'' = Some ''{b}c{d}e}'' \<longleftrightarrow>
      (\<exists>pre mid post. ''x} a{b}c{d}e}f{g'' = pre @ CHR ''{'' # mid @ CHR ''}'' # post
         \<and> CHR ''{'' \<notin> set pre \<and> CHR ''}'' \<notin> set post
         \<and> ''{b}c{d}e}'' = CHR ''{'' # mid @ [CHR ''}''])"
    using loudnorm_json_is_first_brace_to_last_brace
            [of "''x} a{b}c{d}e}f{g''" "''{b}c{d}e}''"]
    by (rule conjunct1)
  have a: "re_search ''x} a{b}c{d}e}f{g'' = Some ''{b}c{d}e}''"
    using iff ex by (rule iffD2)
  have s1: "spawn ?P (world (start [exited 0 [] (analysis_log sample_report)])) ?argv
              = (Inr \<lparr>exit_code = 0, out_text = [], err_text = analysis_log sample_report\<rparr>, [])"
    by (simp add: scripted_def start_def exited_def)
  have r1: "re_search (analysis_log sample_report) = Some sample_report"
    by (simp add: analysis_log_def sample_report_def)
  have b: "fst (measure_loudnorm ?P ''clip.mp4'' build_base_filters ''-16.0''
            (start [exited 0 [] (analysis_log sample_report)])) = stats_of_block ?P sample_report"
    using loudnorm_json_is_first_brace_to_last_brace
            [of _ _ ?P "start [exited 0 [] (analysis_log sample_report)]" "''clip.mp4''"
               build_base_filters "''-16.0''"
               "\<lparr>exit_code = 0, out_text = [], err_text = analysis_log sample_report\<rparr>" "[]"
               sample_report]
          s1 r1
    by simp
  have b': "stats_of_block ?P sample_report = Inr sample_stats"
    by (simp add: stats_of_block_def json_loads_def scripted_def sample_table_def
          sample_report_json_def sample_stats_def sample_report_def clip_stdout_def
          silent_stdout_def audio_only_stdout_def)
  have s2: "spawn ?P (world (start [exited 0 [] (analysis_log sample_report @ ''[out#0] }'')]))
              ?argv
              = (Inr \<lparr>exit_code = 0, out_text = [],
                       err_text = analysis_log sample_report @ ''[out#0] }''\<rparr>, [])"
    by (simp add: scripted_def start_def exited_def)
  have r2: "re_search (analysis_log sample_report @ ''[out#0] }'')
              = Some (sample_report @ ''\<newline>[out#0] }'')"
    by (simp add: analysis_log_def sample_report_def)
  have c: "fst (measure_loudnorm ?P ''clip.mp4'' build_base_filters ''-16.0''
            (start [exited 0 [] (analysis_log sample_report @ ''[out#0] }'')]))
           = stats_of_block ?P (sample_report @ ''\<newline>[out#0] }'')"
    using loudnorm_json_is_first_brace_to_last_brace
            [of _ _ ?P "start [exited 0 [] (analysis_log sample_report @ ''[out#0] }'')]"
               "''clip.mp4''" build_base_filters "''-16.0''"
               "\<lparr>exit_code = 0, out_text = [],
                 err_text = analysis_log sample_report @ ''[out#0] }''\<rparr>" "[]"
               "sample_report @ ''\<newline>[out#0] }''"]
          s2 r2
    by simp
  have c': "stats_of_block ?P (sample_report @ ''\<newline>[out#0] }'') = Inl JSONDecodeError"
    by (simp add: stats_of_block_def json_loads_def scripted_def sample_table_def
          sample_report_def clip_stdout_def silent_stdout_def audio_only_stdout_def
          partial_report_def)
  from a b b' c c' show ?thesis by simp
qed

subsection \<open>C2: no audio stream\<close>

text \<open>
  C2 as stated fails in the error it names: the program defines no error class of its
  own, and a file without audio stream makes \<open>clean_video\<close> raise an exception of the
  built-in class \<^verbatim>\<open>RuntimeError\<close>, the class that a failed probe raises too.
\<close>

theorem no_audio_error_is_a_RuntimeError:
  "raised_class
     (fst (clean_video (scripted sample_table) ''clip.mp4'' ''out.mp4'' ''-16.0'' ''192k''
             (start [exited 0 silent_stdout []])))
     = Some ''RuntimeError''
   \<and> raised_class
       (fst (clean_video (scripted sample_table) ''clip.mp4'' ''out.mp4'' ''-16.0'' ''192k''
               (start [exited 0 silent_stdout []])))
     \<noteq> Some ''NoAudioStreamError''
   \<and> raised_class
       (fst (clean_video (scripted sample_table) ''clip.mp4'' ''out.mp4'' ''-16.0'' ''192k''
               (start [exited 1 [] ''probe: boom''])))
     = Some ''RuntimeError''"
proof -
  let ?P = "scripted sample_table"
  have p: "ffprobe_json ?P ''clip.mp4'' (start [exited 0 silent_stdout []])
             = (Inr silent_meta, \<lparr>world = [], calls = [ffprobe_argv ''clip.mp4'']\<rparr>)"
    by (simp add: ffprobe_json_eq scripted_def start_def exited_def json_loads_def
          sample_table_def clip_stdout_def silent_stdout_def)
  have k: "pick_audio_stream silent_meta = Inr None"
    by (simp add: pick_audio_stream_def silent_meta_def)
  have a: "fst (clean_video ?P ''clip.mp4'' ''out.mp4'' ''-16.0'' ''192k''
                  (start [exited 0 silent_stdout []]))
             = Inl (RuntimeError ''Input has no audio stream.'')"
    unfolding clean_video_no_audio [OF p k] by simp
  have q: "ffprobe_json ?P ''clip.mp4'' (start [exited 1 [] ''probe: boom''])
             = (Inl (RuntimeError (''ffprobe failed:\<newline>'' @ ''probe: boom'')),
                \<lparr>world = [], calls = [ffprobe_argv ''clip.mp4'']\<rparr>)"
    by (simp add: ffprobe_json_eq scripted_def start_def exited_def)
  have b: "fst (clean_video ?P ''clip.mp4'' ''out.mp4'' ''-16.0'' ''192k''
                  (start [exited 1 [] ''probe: boom'']))
             = Inl (RuntimeError (''ffprobe failed:\<newline>'' @ ''probe: boom''))"
    unfolding clean_video_probe_raised [OF q] by simp
  show ?thesis unfolding a b by simp
qed

text \<open>
  C2, amended.  When the probe succeeds and the media descriptor it printed has no stream
  of codec type \<^verbatim>\<open>audio\<close>, \<open>clean_video\<close> fails with the error of line 113, the built-in
  \<^verbatim>\<open>RuntimeError\<close> with the message \<^verbatim>\<open>Input has no audio stream.\<close>, in the very state the
  probe left: the only call of the run is the ffprobe one, and neither the analysis nor
  the encode command is invoked.
\<close>

theorem no_audio_stream_fails_before_analysis:
  assumes "ffprobe_json P inp st = (Inr meta, st1)"
    and "is_media_descriptor meta"
    and "filter is_audio (streams_of meta) = []"
  shows "clean_video P inp out t br st
           = (Inl (RuntimeError ''Input has no audio stream.''), st1)
       \<and> new_calls st st1 = [ffprobe_argv inp]
       \<and> raised_class (fst (clean_video P inp out t br st)) = Some ''RuntimeError''"
proof -
  have "pick_audio_stream meta = Inr None"
    using pick_audio_stream_find [OF assms(2)] assms(3) by (simp add: find_filter_empty)
  with assms(1) have "clean_video P inp out t br st
           = (Inl (RuntimeError ''Input has no audio stream.''), st1)"
    by (rule clean_video_no_audio)
  moreover have "new_calls st st1 = [ffprobe_argv inp]"
    using ffprobe_json_calls [of P inp st] assms(1) by (simp add: new_calls_def)
  ultimately show ?thesis by simp
qed

text \<open>A file with one video stream and nothing else.\<close>

theorem no_audio_stream_fails_before_analysis_witness:
  "clean_video (scripted sample_table) ''clip.mp4'' ''out.mp4'' ''-16.0'' ''192k''
     (start [exited 0 silent_stdout [], exited 0 [] (analysis_log sample_report), exited 0 [] []])
   = (Inl (RuntimeError ''Input has no audio stream.''),
      \<lparr>world = [exited 0 [] (analysis_log sample_report), exited 0 [] []],
       calls = [[''ffprobe'', ''-v'', ''error'', ''-print_format'', ''json'',
                 ''-show_streams'', ''-show_format'', ''clip.mp4'']]\<rparr>)
   \<and> raised_class
       (fst (clean_video (scripted sample_table) ''clip.mp4'' ''out.mp4'' ''-16.0'' ''192k''
          (start [exited 0 silent_stdout [], exited 0 [] (analysis_log sample_report),
                  exited 0 [] []])))
     = Some ''RuntimeError''"
proof -
  let ?P = "scripted sample_table"
  let ?st = "start [exited 0 silent_stdout [], exited 0 [] (analysis_log sample_report),
                    exited 0 [] []]"
  let ?st1 = "\<lparr>world = [exited 0 [] (analysis_log sample_report), exited 0 [] []],
               calls = [ffprobe_argv ''clip.mp4'']\<rparr>"
  have h1: "ffprobe_json ?P ''clip.mp4'' ?st = (Inr silent_meta, ?st1)"
    by (simp add: ffprobe_json_eq scripted_def start_def exited_def json_loads_def
          sample_table_def clip_stdout_def silent_stdout_def)
  have h2: "is_media_descriptor silent_meta" by (simp add: silent_meta_def)
  have h3: "filter is_audio (streams_of silent_meta) = []" by (simp add: silent_meta_def)
  note T = no_audio_stream_fails_before_analysis
             [OF h1 h2 h3, of "''out.mp4''" "''-16.0''" "''192k''"]
  have a: "clean_video ?P ''clip.mp4'' ''out.mp4'' ''-16.0'' ''192k'' ?st
             = (Inl (RuntimeError ''Input has no audio stream.''), ?st1)"
    using T by (rule conjunct1)
  have b: "raised_class (fst (clean_video ?P ''clip.mp4'' ''out.mp4'' ''-16.0'' ''192k'' ?st))
             = Some ''RuntimeError''"
    using T [THEN conjunct2] by (rule conjunct2)
  from a b show ?thesis by (simp add: ffprobe_argv_def)
qed

subsection \<open>Sample runs on the scripted platform\<close>

lemma scripted_spawn: "spawn (scripted tbl) (r # rs) cmd = (r, rs)"
  by (simp add: scripted_def)

lemma scripted_float_str: "float_str (scripted tbl) x = x"
  by (simp add: scripted_def)

lemma sample_decode:
  "json_decode (scripted sample_table) clip_stdout = Some clip_meta"
  "json_decode (scripted sample_table) silent_stdout = Some silent_meta"
  "json_decode (scripted sample_table) audio_only_stdout = Some audio_only_meta"
  "json_decode (scripted sample_table) sample_report = Some sample_report_json"
  "json_decode (scripted sample_table) partial_report = Some partial_report_json"
  by (simp_all add: scripted_def sample_table_def clip_stdout_def silent_stdout_def
        audio_only_stdout_def sample_report_def partial_report_def)

lemma scripted_probe:
  "json_decode (scripted tbl) out = Some meta \<Longrightarrow>
   ffprobe_json (scripted tbl) inp \<lparr>world = exited 0 out err # rest, calls = cs\<rparr>
     = (Inr meta, \<lparr>world = rest, calls = cs @ [ffprobe_argv inp]\<rparr>)"
  by (simp add: ffprobe_json_eq scripted_spawn exited_def json_loads_def)

lemma scripted_measure:
  "re_search log = Some block \<Longrightarrow>
   measure_loudnorm (scripted tbl) inp bf t \<lparr>world = exited 0 out log # rest, calls = cs\<rparr>
     = (stats_of_block (scripted tbl) block,
        \<lparr>world = rest, calls = cs @ [measure_argv inp (measure_af (scripted tbl) bf t)]\<rparr>)"
  by (simp add: measure_loudnorm_eq scripted_spawn exited_def)

lemma re_search_sample_log: "re_search (analysis_log sample_report) = Some sample_report"
  by (simp add: analysis_log_def sample_report_def)

lemma re_search_partial_log: "re_search (analysis_log partial_report) = Some partial_report"
  by (simp add: analysis_log_def partial_report_def)

lemma stats_of_sample_report:
  "stats_of_block (scripted sample_table) sample_report = Inr sample_stats"
  by (simp add: stats_of_block_def json_loads_def sample_decode sample_report_json_def
        sample_stats_def)

lemma stats_of_partial_report:
  "stats_of_block (scripted sample_table) partial_report = Inl (KeyError ''input_tp'')"
  by (simp add: stats_of_block_def json_loads_def sample_decode partial_report_json_def)

lemma pick_clip_meta:
  "pick_audio_stream clip_meta = Inr (Some (JObj [(''codec_type'', JStr ''audio'')]))"
  by (simp add: pick_audio_stream_def clip_meta_def)

lemma pick_audio_only_meta:
  "pick_audio_stream audio_only_meta = Inr (Some (JObj [(''codec_type'', JStr ''audio'')]))"
  by (simp add: pick_audio_stream_def audio_only_meta_def)

lemma sample_probe:
  "ffprobe_json (scripted sample_table) inp (start (exited 0 clip_stdout [] # rest))
     = (Inr clip_meta, \<lparr>world = rest, calls = [ffprobe_argv inp]\<rparr>)"
  using scripted_probe [OF sample_decode(1), of inp "[]" rest "[]"]
  by (simp add: start_def)

lemma sample_measure:
  "measure_loudnorm (scripted sample_table) inp bf t
     \<lparr>world = exited 0 [] (analysis_log sample_report) # rest, calls = cs\<rparr>
     = (Inr sample_stats,
        \<lparr>world = rest,
         calls = cs @ [measure_argv inp (measure_af (scripted sample_table) bf t)]\<rparr>)"
  using scripted_measure [OF re_search_sample_log, of sample_table]
  by (simp add: stats_of_sample_report)

subsection \<open>C5: one base chain for both passes\<close>

text \<open>
  C5.  In every run that reaches the encode, so that its calls are the probe, the
  analysis and the encode, the filter argument of the analysis call (the word after
  \<^verbatim>\<open>-af\<close>) and the filter argument of the encode call embed the same base chain, character
  for character: in both it is \<open>build_base_filters\<close>, followed by the loudnorm stage, which
  alone differs.
\<close>

theorem base_chain_identical_in_both_passes:
  assumes "new_calls st (snd (clean_video P inp out t br st)) = [probe_call, measure_call, encode_call]"
  shows "measure_call ! 9 = ''-af'' \<and> encode_call ! 12 = ''-af''
       \<and> base_chain_of (measure_call ! 10) = Some build_base_filters
       \<and> base_chain_of (encode_call ! 13) = base_chain_of (measure_call ! 10)"
proof -
  from clean_video_calls [of st P inp out t br] obtain stats where
    "new_calls st (snd (clean_video P inp out t br st)) \<in>
       {[ffprobe_argv inp],
        [ffprobe_argv inp, measure_argv inp (measure_af P build_base_filters t)],
        [ffprobe_argv inp, measure_argv inp (measure_af P build_base_filters t),
         apply_argv inp out (build_base_filters @ '','' @ loudnorm_apply P t stats) br]}"
    by blast
  with assms have m: "measure_call = measure_argv inp (measure_af P build_base_filters t)"
    and e: "encode_call
              = apply_argv inp out (build_base_filters @ '','' @ loudnorm_apply P t stats) br"
    by simp_all
  have "measure_call ! 9 = ''-af''" and "measure_call ! 10 = measure_af P build_base_filters t"
    by (simp_all add: m measure_argv_def)
  moreover have "encode_call ! 12 = ''-af''"
    and "encode_call ! 13 = build_base_filters @ '','' @ loudnorm_apply P t stats"
    by (simp_all add: e apply_argv_def)
  ultimately show ?thesis
    using base_chain_of_measure_af [of P t] base_chain_of_apply_af [of P t stats] by simp
qed

lemma sample_run:
  "clean_video (scripted sample_table) ''clip.mp4'' ''out.mp4'' ''-16.0'' ''192k''
     (start [exited 0 clip_stdout [], exited 0 [] (analysis_log sample_report), exited 0 [] []])
   = (Inr (),
      \<lparr>world = [],
       calls = [ffprobe_argv ''clip.mp4'',
                measure_argv ''clip.mp4''
                  (measure_af (scripted sample_table) build_base_filters ''-16.0''),
                apply_argv ''clip.mp4'' ''out.mp4''
                  (build_base_filters @ '',''
                     @ loudnorm_apply (scripted sample_table) ''-16.0'' sample_stats)
                  ''192k'']\<rparr>)"
proof -
  let ?P = "scripted sample_table"
  have p: "ffprobe_json ?P ''clip.mp4''
             (start [exited 0 clip_stdout [], exited 0 [] (analysis_log sample_report),
                     exited 0 [] []])
           = (Inr clip_meta,
              \<lparr>world = [exited 0 [] (analysis_log sample_report), exited 0 [] []],
               calls = [] @ [ffprobe_argv ''clip.mp4'']\<rparr>)"
    unfolding start_def by (rule scripted_probe) (rule sample_decode)
  have m: "measure_loudnorm ?P ''clip.mp4'' build_base_filters ''-16.0''
             \<lparr>world = [exited 0 [] (analysis_log sample_report), exited 0 [] []],
              calls = [] @ [ffprobe_argv ''clip.mp4'']\<rparr>
           = (Inr sample_stats,
              \<lparr>world = [exited 0 [] []],
               calls = ([] @ [ffprobe_argv ''clip.mp4''])
                 @ [measure_argv ''clip.mp4'' (measure_af ?P build_base_filters ''-16.0'')]\<rparr>)"
    using scripted_measure [OF re_search_sample_log, of sample_table]
    by (simp add: stats_of_sample_report)
  show ?thesis
    unfolding clean_video_encode [OF p pick_clip_meta m]
    by (simp add: scripted_spawn exited_def)
qed

text \<open>A run on a clip with one video and one audio stream, target -16.0, bitrate 192k.\<close>

theorem base_chain_identical_in_both_passes_witness:
  "base_chain_of
     (measure_argv ''clip.mp4'' (measure_af (scripted sample_table) build_base_filters ''-16.0'')
        ! 10) = Some build_base_filters
   \<and> base_chain_of
       (apply_argv ''clip.mp4'' ''out.mp4''
          (build_base_filters @ '',''
             @ loudnorm_apply (scripted sample_table) ''-16.0'' sample_stats) ''192k'' ! 13)
     = Some build_base_filters"
proof -
  let ?P = "scripted sample_table"
  let ?st = "start [exited 0 clip_stdout [], exited 0 [] (analysis_log sample_report),
                    exited 0 [] []]"
  have h: "new_calls ?st (snd (clean_video ?P ''clip.mp4'' ''out.mp4'' ''-16.0'' ''192k'' ?st))
     = [ffprobe_argv ''clip.mp4'',
        measure_argv ''clip.mp4'' (measure_af ?P build_base_filters ''-16.0''),
        apply_argv ''clip.mp4'' ''out.mp4''
          (build_base_filters @ '','' @ loudnorm_apply ?P ''-16.0'' sample_stats) ''192k'']"
    unfolding sample_run by (simp add: new_calls_def start_def)
  show ?thesis
    using base_chain_identical_in_both_passes [OF h] by simp
qed

subsection \<open>C10: the video mapping is unconditional\<close>

text \<open>
  C10.  Whenever the probe gave a descriptor in which an audio stream was found and the
  analysis gave its statistics, the next call is the encode, and its argument vector
  contains \<^verbatim>\<open>-map 0:v:0 -c:v copy\<close>.  Nothing is asked about video streams: the audio
  stream is the only stream whose presence is checked before the encode.
\<close>

theorem encode_always_maps_video:
  assumes "ffprobe_json P inp st = (Inr meta, st1)"
    and "pick_audio_stream meta = Inr (Some a)"
    and "measure_loudnorm P inp build_base_filters t st1 = (Inr stats, st2)"
  shows "new_calls st2 (snd (clean_video P inp out t br st)) =
           [[''ffmpeg'', ''-hide_banner'', ''-nostdin'', ''-y'', ''-i'', inp,
             ''-map'', ''0:v:0'', ''-c:v'', ''copy'',
             ''-map'', ''0:a:0'', ''-af'',
             build_base_filters @ '','' @ loudnorm_apply P t stats,
             ''-c:a'', ''aac'', ''-b:a'', br, ''-movflags'', ''+faststart'', out]]"
  unfolding clean_video_encode [OF assms]
  by (simp add: new_calls_def apply_argv_def split: prod.splits)

text \<open>A file whose only stream is an audio stream: the encode still maps \<^verbatim>\<open>0:v:0\<close>.\<close>

theorem encode_always_maps_video_witness:
  "streams_of audio_only_meta = [JObj [(''codec_type'', JStr ''audio'')]]
   \<and> calls (snd (clean_video (scripted sample_table) ''talk.m4a'' ''out.mp4'' ''-16.0'' ''192k''
        (start [exited 0 audio_only_stdout [], exited 0 [] (analysis_log sample_report),
                exited 1 [] ''Stream map 0:v:0 matches no streams.''])))
     = [ffprobe_argv ''talk.m4a'',
        measure_argv ''talk.m4a'' (measure_af (scripted sample_table) build_base_filters ''-16.0''),
        [''ffmpeg'', ''-hide_banner'', ''-nostdin'', ''-y'', ''-i'', ''talk.m4a'',
         ''-map'', ''0:v:0'', ''-c:v'', ''copy'',
         ''-map'', ''0:a:0'', ''-af'',
         build_base_filters @ '','' @ loudnorm_apply (scripted sample_table) ''-16.0'' sample_stats,
         ''-c:a'', ''aac'', ''-b:a'', ''192k'', ''-movflags'', ''+faststart'', ''out.mp4'']]"
proof -
  let ?P = "scripted sample_table"
  let ?st = "start [exited 0 audio_only_stdout [], exited 0 [] (analysis_log sample_report),
                exited 1 [] ''Stream map 0:v:0 matches no streams.'']"
  let ?st1 = "\<lparr>world = [exited 0 [] (analysis_log sample_report),
                         exited 1 [] ''Stream map 0:v:0 matches no streams.''],
               calls = [] @ [ffprobe_argv ''talk.m4a'']\<rparr>"
  let ?st2 = "\<lparr>world = [exited 1 [] ''Stream map 0:v:0 matches no streams.''],
               calls = ([] @ [ffprobe_argv ''talk.m4a''])
                 @ [measure_argv ''talk.m4a'' (measure_af ?P build_base_filters ''-16.0'')]\<rparr>"
  have p: "ffprobe_json ?P ''talk.m4a'' ?st = (Inr audio_only_meta, ?st1)"
    unfolding start_def by (rule scripted_probe) (rule sample_decode)
  have m: "measure_loudnorm ?P ''talk.m4a'' build_base_filters ''-16.0'' ?st1
             = (Inr sample_stats, ?st2)"
    using scripted_measure [OF re_search_sample_log, of sample_table]
    by (simp add: stats_of_sample_report)
  have c: "calls (snd (clean_video ?P ''talk.m4a'' ''out.mp4'' ''-16.0'' ''192k'' ?st))
             = calls ?st2 @ new_calls ?st2
                 (snd (clean_video ?P ''talk.m4a'' ''out.mp4'' ''-16.0'' ''192k'' ?st))"
    unfolding clean_video_encode [OF p pick_audio_only_meta m]
    by (simp add: new_calls_def split: prod.splits)
  show ?thesis
    using encode_always_maps_video [OF p pick_audio_only_meta m, of "''out.mp4''" "''192k''"] c
    by (simp add: audio_only_meta_def)
qed

subsection \<open>C1: the loudnorm stage of the encode\<close>

text \<open>
  C1 as stated fails: for the target -16.0 and the measurement record of the claim, the
  parameters of the loudnorm expression are not exactly the nine that the claim lists.
\<close>

theorem loudnorm_apply_not_only_nine_parameters:
  "filter_options
     (loudnorm_apply (scripted []) ''-16.0''
        \<lparr>input_i = ''-23.1'', input_tp = ''-2.0'', input_lra = ''7.3'',
         input_thresh = ''-33.5'', target_offset = ''1.2''\<rparr>)
   \<noteq> [''I=-16.0'', ''TP=-1.5'', ''LRA=11'', ''measured_I=-23.1'', ''measured_TP=-2.0'',
       ''measured_LRA=7.3'', ''measured_thresh=-33.5'', ''offset=1.2'', ''linear=true'']"
  by (simp add: filter_options_def loudnorm_apply_def scripted_float_str)

text \<open>
  C1, amended.  For a target that Python prints as -16.0 and the measurement record with
  input_i -23.1, input_tp -2.0, input_lra 7.3, input_thresh -33.5 and target_offset 1.2,
  the loudnorm expression of the encode has exactly the parameters I=-16.0, TP=-1.5,
  LRA=11, measured_I=-23.1, measured_TP=-2.0, measured_LRA=7.3, measured_thresh=-33.5,
  offset=1.2 and linear=true, in this order, followed by print_format=summary; and this
  expression, after the base chain and a comma, is the filter argument of the encode call
  that \<open>clean_video\<close> makes once the analysis has given that record.
\<close>

theorem loudnorm_apply_parameters:
  assumes "float_str P t = ''-16.0''"
  shows "loudnorm_apply P t
           \<lparr>input_i = ''-23.1'', input_tp = ''-2.0'', input_lra = ''7.3'',
            input_thresh = ''-33.5'', target_offset = ''1.2''\<rparr>
         = ''loudnorm=I=-16.0:TP=-1.5:LRA=11:measured_I=-23.1:measured_TP=-2.0:measured_LRA=7.3:measured_thresh=-33.5:offset=1.2:linear=true:print_format=summary''
       \<and> filter_options
           (loudnorm_apply P t
              \<lparr>input_i = ''-23.1'', input_tp = ''-2.0'', input_lra = ''7.3'',
               input_thresh = ''-33.5'', target_offset = ''1.2''\<rparr>)
         = [''I=-16.0'', ''TP=-1.5'', ''LRA=11'', ''measured_I=-23.1'', ''measured_TP=-2.0'',
            ''measured_LRA=7.3'', ''measured_thresh=-33.5'', ''offset=1.2'', ''linear=true'',
            ''print_format=summary'']
       \<and> (ffprobe_json P inp st = (Inr meta, st1) \<and> pick_audio_stream meta = Inr (Some a)
            \<and> measure_loudnorm P inp build_base_filters t st1
                = (Inr \<lparr>input_i = ''-23.1'', input_tp = ''-2.0'', input_lra = ''7.3'',
                         input_thresh = ''-33.5'', target_offset = ''1.2''\<rparr>, st2)
          \<longrightarrow> new_calls st2 (snd (clean_video P inp out t br st))
                = [apply_argv inp out
                     (build_base_filters @ '','' @ ''loudnorm=I=-16.0:TP=-1.5:LRA=11:measured_I=-23.1:measured_TP=-2.0:measured_LRA=7.3:measured_thresh=-33.5:offset=1.2:linear=true:print_format=summary'')
                     br])"
proof -
  let ?stats = "\<lparr>input_i = ''-23.1'', input_tp = ''-2.0'', input_lra = ''7.3'',
                 input_thresh = ''-33.5'', target_offset = ''1.2''\<rparr>"
  have expr: "loudnorm_apply P t ?stats
         = ''loudnorm=I=-16.0:TP=-1.5:LRA=11:measured_I=-23.1:measured_TP=-2.0:measured_LRA=7.3:measured_thresh=-33.5:offset=1.2:linear=true:print_format=summary''"
    by (simp add: loudnorm_apply_def assms)
  have opts: "filter_options (loudnorm_apply P t ?stats)
         = [''I=-16.0'', ''TP=-1.5'', ''LRA=11'', ''measured_I=-23.1'', ''measured_TP=-2.0'',
            ''measured_LRA=7.3'', ''measured_thresh=-33.5'', ''offset=1.2'', ''linear=true'',
            ''print_format=summary'']"
    unfolding expr by (simp add: filter_options_def)
  show ?thesis
  proof (intro conjI impI)
    show "loudnorm_apply P t ?stats
         = ''loudnorm=I=-16.0:TP=-1.5:LRA=11:measured_I=-23.1:measured_TP=-2.0:measured_LRA=7.3:measured_thresh=-33.5:offset=1.2:linear=true:print_format=summary''"
      by (rule expr)
    show "filter_options (loudnorm_apply P t ?stats)
         = [''I=-16.0'', ''TP=-1.5'', ''LRA=11'', ''measured_I=-23.1'', ''measured_TP=-2.0'',
            ''measured_LRA=7.3'', ''measured_thresh=-33.5'', ''offset=1.2'', ''linear=true'',
            ''print_format=summary'']"
      by (rule opts)
    assume "ffprobe_json P inp st = (Inr meta, st1) \<and> pick_audio_stream meta = Inr (Some a)
            \<and> measure_loudnorm P inp build_base_filters t st1 = (Inr ?stats, st2)"
    then have p: "ffprobe_json P inp st = (Inr meta, st1)"
      and a: "pick_audio_stream meta = Inr (Some a)"
      and m: "measure_loudnorm P inp build_base_filters t st1 = (Inr ?stats, st2)"
      by simp_all
    have "new_calls st2 (snd (clean_video P inp out t br st))
            = [apply_argv inp out (build_base_filters @ '','' @ loudnorm_apply P t ?stats) br]"
      unfolding clean_video_encode [OF p a m]
      by (simp add: new_calls_def split: prod.splits)
    then show "new_calls st2 (snd (clean_video P inp out t br st))
                = [apply_argv inp out
                     (build_base_filters @ '','' @ ''loudnorm=I=-16.0:TP=-1.5:LRA=11:measured_I=-23.1:measured_TP=-2.0:measured_LRA=7.3:measured_thresh=-33.5:offset=1.2:linear=true:print_format=summary'')
                     br]"
      unfolding expr .
  qed
qed

text \<open>The sample run: target -16.0 and an analysis that reports the record of the claim.\<close>

theorem loudnorm_apply_parameters_witness:
  "filter_options (loudnorm_apply (scripted sample_table) ''-16.0'' sample_stats)
     = [''I=-16.0'', ''TP=-1.5'', ''LRA=11'', ''measured_I=-23.1'', ''measured_TP=-2.0'',
        ''measured_LRA=7.3'', ''measured_thresh=-33.5'', ''offset=1.2'', ''linear=true'',
        ''print_format=summary'']
   \<and> new_calls
        \<lparr>world = [exited 0 [] []],
         calls = [ffprobe_argv ''clip.mp4'',
                  measure_argv ''clip.mp4''
                    (measure_af (scripted sample_table) build_base_filters ''-16.0'')]\<rparr>
        (snd (clean_video (scripted sample_table) ''clip.mp4'' ''out.mp4'' ''-16.0'' ''192k''
           (start [exited 0 clip_stdout [], exited 0 [] (analysis_log sample_report),
                   exited 0 [] []])))
     = [apply_argv ''clip.mp4'' ''out.mp4''
          (build_base_filters @ '','' @ ''loudnorm=I=-16.0:TP=-1.5:LRA=11:measured_I=-23.1:measured_TP=-2.0:measured_LRA=7.3:measured_thresh=-33.5:offset=1.2:linear=true:print_format=summary'')
          ''192k'']"
proof -
  let ?P = "scripted sample_table"
  have h: "float_str ?P ''-16.0'' = ''-16.0''" by (rule scripted_float_str)
  note T = loudnorm_apply_parameters [OF h]
  have a: "filter_options (loudnorm_apply ?P ''-16.0'' sample_stats)
     = [''I=-16.0'', ''TP=-1.5'', ''LRA=11'', ''measured_I=-23.1'', ''measured_TP=-2.0'',
        ''measured_LRA=7.3'', ''measured_thresh=-33.5'', ''offset=1.2'', ''linear=true'',
        ''print_format=summary'']"
    using T [THEN conjunct2, THEN conjunct1] unfolding sample_stats_def .
  have p: "ffprobe_json ?P ''clip.mp4''
             (start [exited 0 clip_stdout [], exited 0 [] (analysis_log sample_report),
                     exited 0 [] []])
           = (Inr clip_meta,
              \<lparr>world = [exited 0 [] (analysis_log sample_report), exited 0 [] []],
               calls = [ffprobe_argv ''clip.mp4'']\<rparr>)"
    by (rule sample_probe)
  have m: "measure_loudnorm ?P ''clip.mp4'' build_base_filters ''-16.0''
             \<lparr>world = [exited 0 [] (analysis_log sample_report), exited 0 [] []],
              calls = [ffprobe_argv ''clip.mp4'']\<rparr>
           = (Inr \<lparr>input_i = ''-23.1'', input_tp = ''-2.0'', input_lra = ''7.3'',
                    input_thresh = ''-33.5'', target_offset = ''1.2''\<rparr>,
              \<lparr>world = [exited 0 [] []],
               calls = [ffprobe_argv ''clip.mp4'',
                        measure_argv ''clip.mp4'' (measure_af ?P build_base_filters ''-16.0'')]\<rparr>)"
    using sample_measure [of "''clip.mp4''" build_base_filters "''-16.0''" "[exited 0 [] []]"
                             "[ffprobe_argv ''clip.mp4'']"]
    by (simp add: sample_stats_def)
  have b: "new_calls
        \<lparr>world = [exited 0 [] []],
         calls = [ffprobe_argv ''clip.mp4'',
                  measure_argv ''clip.mp4'' (measure_af ?P build_base_filters ''-16.0'')]\<rparr>
        (snd (clean_video ?P ''clip.mp4'' ''out.mp4'' ''-16.0'' ''192k''
           (start [exited 0 clip_stdout [], exited 0 [] (analysis_log sample_report),
                   exited 0 [] []])))
     = [apply_argv ''clip.mp4'' ''out.mp4''
          (build_base_filters @ '','' @ ''loudnorm=I=-16.0:TP=-1.5:LRA=11:measured_I=-23.1:measured_TP=-2.0:measured_LRA=7.3:measured_thresh=-33.5:offset=1.2:linear=true:print_format=summary'')
          ''192k'']"
    by (rule T [THEN conjunct2, THEN conjunct2, THEN mp,
                OF conjI [OF p conjI [OF pick_clip_meta m]]])
  from a b show ?thesis by (rule conjI)
qed

subsection \<open>C3: a stage that exits with a non-zero code\<close>

text \<open>
  C3 as stated fails: the errors of the three stages are not of three types.  A probe, an
  analysis and an encode that exit with code 1 all raise an exception of the one class
  \<^verbatim>\<open>RuntimeError\<close>.
\<close>

theorem stage_errors_share_one_class:
  "raised_class (fst (clean_video (scripted sample_table) ''clip.mp4'' ''out.mp4'' ''-16.0''
      ''192k'' (start [exited 1 [] ''probe: boom''])))
     = Some ''RuntimeError''
   \<and> raised_class (fst (clean_video (scripted sample_table) ''clip.mp4'' ''out.mp4'' ''-16.0''
      ''192k'' (start [exited 0 clip_stdout [], exited 1 [] ''measure: boom''])))
     = Some ''RuntimeError''
   \<and> raised_class (fst (clean_video (scripted sample_table) ''clip.mp4'' ''out.mp4'' ''-16.0''
      ''192k'' (start [exited 0 clip_stdout [], exited 0 [] (analysis_log sample_report),
                      exited 1 [] ''encode: boom''])))
     = Some ''RuntimeError''"
proof -
  let ?P = "scripted sample_table"
  have p0: "ffprobe_json ?P ''clip.mp4'' (start [exited 1 [] ''probe: boom''])
              = (Inl (RuntimeError (''ffprobe failed:\<newline>'' @ ''probe: boom'')),
                 \<lparr>world = [], calls = [] @ [ffprobe_argv ''clip.mp4'']\<rparr>)"
    by (simp add: ffprobe_json_eq start_def scripted_spawn exited_def)
  have a: "raised_class (fst (clean_video ?P ''clip.mp4'' ''out.mp4'' ''-16.0''
      ''192k'' (start [exited 1 [] ''probe: boom'']))) = Some ''RuntimeError''"
    unfolding clean_video_probe_raised [OF p0] by simp
  have p1: "ffprobe_json ?P ''clip.mp4'' (start (exited 0 clip_stdout [] # rest))
              = (Inr clip_meta, \<lparr>world = rest, calls = [] @ [ffprobe_argv ''clip.mp4'']\<rparr>)"
    for rest
    unfolding start_def by (rule scripted_probe) (rule sample_decode)
  have m1: "measure_loudnorm ?P ''clip.mp4'' build_base_filters ''-16.0''
              \<lparr>world = [exited 1 [] ''measure: boom''],
               calls = [] @ [ffprobe_argv ''clip.mp4'']\<rparr>
            = (Inl (RuntimeError (''ffmpeg loudnorm measure failed:\<newline>'' @ ''measure: boom'')),
               \<lparr>world = [],
                calls = ([] @ [ffprobe_argv ''clip.mp4''])
                  @ [measure_argv ''clip.mp4'' (measure_af ?P build_base_filters ''-16.0'')]\<rparr>)"
    by (simp add: measure_loudnorm_eq scripted_spawn exited_def)
  have b: "raised_class (fst (clean_video ?P ''clip.mp4'' ''out.mp4'' ''-16.0''
      ''192k'' (start [exited 0 clip_stdout [], exited 1 [] ''measure: boom''])))
     = Some ''RuntimeError''"
    unfolding clean_video_measure [OF p1 pick_clip_meta m1] by simp
  have m2: "measure_loudnorm ?P ''clip.mp4'' build_base_filters ''-16.0''
             \<lparr>world = [exited 0 [] (analysis_log sample_report), exited 1 [] ''encode: boom''],
              calls = [] @ [ffprobe_argv ''clip.mp4'']\<rparr>
           = (Inr sample_stats,
              \<lparr>world = [exited 1 [] ''encode: boom''],
               calls = ([] @ [ffprobe_argv ''clip.mp4''])
                 @ [measure_argv ''clip.mp4'' (measure_af ?P build_base_filters ''-16.0'')]\<rparr>)"
    using scripted_measure [OF re_search_sample_log, of sample_table]
    by (simp add: stats_of_sample_report)
  have c: "raised_class (fst (clean_video ?P ''clip.mp4'' ''out.mp4'' ''-16.0''
      ''192k'' (start [exited 0 clip_stdout [], exited 0 [] (analysis_log sample_report),
                      exited 1 [] ''encode: boom''])))
     = Some ''RuntimeError''"
    unfolding clean_video_encode [OF p1 pick_clip_meta m2]
    by (simp add: scripted_spawn exited_def)
  from a b c show ?thesis by simp
qed

text \<open>
  C3, amended.  In every run, a probe that exits with a non-zero code makes \<open>clean_video\<close>
  raise \<^verbatim>\<open>RuntimeError\<close> with the message \<^verbatim>\<open>ffprobe failed:\<close>, a line break and the probe's
  standard error; an analysis that does so, \<^verbatim>\<open>RuntimeError\<close> with
  \<^verbatim>\<open>ffmpeg loudnorm measure failed:\<close>, a line break and the analysis's standard error; an
  encode that does so, \<^verbatim>\<open>RuntimeError\<close> with \<^verbatim>\<open>ffmpeg clean failed:\<close>, a line break and
  the encode's standard error.  The standard error is carried unchanged, the exception
  class is the same for the three stages, and the stage is told by the first line of the
  message.  The failing call is the last call of the run.
\<close>

theorem stage_failure_raises_RuntimeError_with_stderr:
  "(spawn P (world st) (ffprobe_argv inp) = (Inr c1, w1) \<and> exit_code c1 \<noteq> 0
      \<longrightarrow> clean_video P inp out t br st
            = (Inl (RuntimeError (''ffprobe failed:\<newline>'' @ err_text c1)),
               \<lparr>world = w1, calls = calls st @ [ffprobe_argv inp]\<rparr>))
   \<and> (ffprobe_json P inp st = (Inr meta, st1) \<and> pick_audio_stream meta = Inr (Some a)
        \<and> spawn P (world st1) (measure_argv inp (measure_af P build_base_filters t))
            = (Inr c2, w2)
        \<and> exit_code c2 \<noteq> 0
      \<longrightarrow> clean_video P inp out t br st
            = (Inl (RuntimeError (''ffmpeg loudnorm measure failed:\<newline>'' @ err_text c2)),
               \<lparr>world = w2,
                calls = calls st1
                  @ [measure_argv inp (measure_af P build_base_filters t)]\<rparr>))
   \<and> (ffprobe_json P inp st = (Inr meta, st1) \<and> pick_audio_stream meta = Inr (Some a)
        \<and> measure_loudnorm P inp build_base_filters t st1 = (Inr stats, st2)
        \<and> spawn P (world st2)
              (apply_argv inp out (build_base_filters @ '','' @ loudnorm_apply P t stats) br)
            = (Inr c3, w3)
        \<and> exit_code c3 \<noteq> 0
      \<longrightarrow> clean_video P inp out t br st
            = (Inl (RuntimeError (''ffmpeg clean failed:\<newline>'' @ err_text c3)),
               \<lparr>world = w3,
                calls = calls st2
                  @ [apply_argv inp out
                       (build_base_filters @ '','' @ loudnorm_apply P t stats) br]\<rparr>))"
proof (intro conjI impI)
  assume h: "spawn P (world st) (ffprobe_argv inp) = (Inr c1, w1) \<and> exit_code c1 \<noteq> 0"
  then have "ffprobe_json P inp st
               = (Inl (RuntimeError (''ffprobe failed:\<newline>'' @ err_text c1)),
                  \<lparr>world = w1, calls = calls st @ [ffprobe_argv inp]\<rparr>)"
    by (simp add: ffprobe_json_eq)
  then show "clean_video P inp out t br st
            = (Inl (RuntimeError (''ffprobe failed:\<newline>'' @ err_text c1)),
               \<lparr>world = w1, calls = calls st @ [ffprobe_argv inp]\<rparr>)"
    by (rule clean_video_probe_raised)
next
  assume h: "ffprobe_json P inp st = (Inr meta, st1) \<and> pick_audio_stream meta = Inr (Some a)
        \<and> spawn P (world st1) (measure_argv inp (measure_af P build_base_filters t))
            = (Inr c2, w2)
        \<and> exit_code c2 \<noteq> 0"
  then have "measure_loudnorm P inp build_base_filters t st1
               = (Inl (RuntimeError (''ffmpeg loudnorm measure failed:\<newline>'' @ err_text c2)),
                  \<lparr>world = w2,
                   calls = calls st1
                     @ [measure_argv inp (measure_af P build_base_filters t)]\<rparr>)"
    by (simp add: measure_loudnorm_eq)
  with h show "clean_video P inp out t br st
            = (Inl (RuntimeError (''ffmpeg loudnorm measure failed:\<newline>'' @ err_text c2)),
               \<lparr>world = w2,
                calls = calls st1
                  @ [measure_argv inp (measure_af P build_base_filters t)]\<rparr>)"
    by (simp add: clean_video_measure)
next
  assume h: "ffprobe_json P inp st = (Inr meta, st1) \<and> pick_audio_stream meta = Inr (Some a)
        \<and> measure_loudnorm P inp build_base_filters t st1 = (Inr stats, st2)
        \<and> spawn P (world st2)
              (apply_argv inp out (build_base_filters @ '','' @ loudnorm_apply P t stats) br)
            = (Inr c3, w3)
        \<and> exit_code c3 \<noteq> 0"
  then have p: "ffprobe_json P inp st = (Inr meta, st1)"
    and a: "pick_audio_stream meta = Inr (Some a)"
    and m: "measure_loudnorm P inp build_base_filters t st1 = (Inr stats, st2)"
    by simp_all
  from h show "clean_video P inp out t br st
            = (Inl (RuntimeError (''ffmpeg clean failed:\<newline>'' @ err_text c3)),
               \<lparr>world = w3,
                calls = calls st2
                  @ [apply_argv inp out
                       (build_base_filters @ '','' @ loudnorm_apply P t stats) br]\<rparr>)"
    unfolding clean_video_encode [OF p a m] by simp
qed

text \<open>
  Three runs in which the probe, the analysis and the encode exit with code 1: the
  messages differ in their first line and end with the standard error of the child.
\<close>

theorem stage_failure_raises_RuntimeError_with_stderr_witness:
  "fst (clean_video (scripted sample_table) ''clip.mp4'' ''out.mp4'' ''-16.0'' ''192k''
          (start [exited 1 [] ''probe: boom'']))
     = Inl (RuntimeError ''ffprobe failed:\<newline>probe: boom'')
   \<and> fst (clean_video (scripted sample_table) ''clip.mp4'' ''out.mp4'' ''-16.0'' ''192k''
          (start [exited 0 clip_stdout [], exited 1 [] ''measure: boom'']))
     = Inl (RuntimeError ''ffmpeg loudnorm measure failed:\<newline>measure: boom'')
   \<and> fst (clean_video (scripted sample_table) ''clip.mp4'' ''out.mp4'' ''-16.0'' ''192k''
          (start [exited 0 clip_stdout [], exited 0 [] (analysis_log sample_report),
                  exited 1 [] ''encode: boom'']))
     = Inl (RuntimeError ''ffmpeg clean failed:\<newline>encode: boom'')"
proof -
  let ?P = "scripted sample_table"
  note T = stage_failure_raises_RuntimeError_with_stderr
  let ?c1 = "\<lparr>exit_code = 1, out_text = [], err_text = ''probe: boom''\<rparr>"
  let ?c2 = "\<lparr>exit_code = 1, out_text = [], err_text = ''measure: boom''\<rparr>"
  let ?c3 = "\<lparr>exit_code = 1, out_text = [], err_text = ''encode: boom''\<rparr>"
  have h1: "spawn ?P (world (start [exited 1 [] ''probe: boom''])) (ffprobe_argv ''clip.mp4'')
              = (Inr ?c1, []) \<and> exit_code ?c1 \<noteq> 0"
    by (simp add: start_def scripted_spawn exited_def)
  have "clean_video ?P ''clip.mp4'' ''out.mp4'' ''-16.0'' ''192k''
          (start [exited 1 [] ''probe: boom''])
        = (Inl (RuntimeError (''ffprobe failed:\<newline>'' @ err_text ?c1)),
           \<lparr>world = [],
            calls = calls (start [exited 1 [] ''probe: boom'']) @ [ffprobe_argv ''clip.mp4'']\<rparr>)"
    by (rule T [THEN conjunct1, THEN mp, OF h1])
  then have a: "fst (clean_video ?P ''clip.mp4'' ''out.mp4'' ''-16.0'' ''192k''
          (start [exited 1 [] ''probe: boom'']))
     = Inl (RuntimeError ''ffprobe failed:\<newline>probe: boom'')"
    by simp
  let ?st1 = "\<lparr>world = [exited 1 [] ''measure: boom''],
                calls = [ffprobe_argv ''clip.mp4'']\<rparr>"
  have h2: "ffprobe_json ?P ''clip.mp4''
              (start [exited 0 clip_stdout [], exited 1 [] ''measure: boom''])
              = (Inr clip_meta, ?st1)
            \<and> pick_audio_stream clip_meta = Inr (Some (JObj [(''codec_type'', JStr ''audio'')]))
            \<and> spawn ?P (world ?st1)
                 (measure_argv ''clip.mp4'' (measure_af ?P build_base_filters ''-16.0''))
                = (Inr ?c2, [])
            \<and> exit_code ?c2 \<noteq> 0"
    by (intro conjI, rule sample_probe, rule pick_clip_meta,
        simp add: scripted_spawn exited_def, simp)
  have "clean_video ?P ''clip.mp4'' ''out.mp4'' ''-16.0'' ''192k''
          (start [exited 0 clip_stdout [], exited 1 [] ''measure: boom''])
        = (Inl (RuntimeError (''ffmpeg loudnorm measure failed:\<newline>'' @ err_text ?c2)),
           \<lparr>world = [],
            calls = calls ?st1
              @ [measure_argv ''clip.mp4'' (measure_af ?P build_base_filters ''-16.0'')]\<rparr>)"
    by (rule T [THEN conjunct2, THEN conjunct1, THEN mp, OF h2])
  then have b: "fst (clean_video ?P ''clip.mp4'' ''out.mp4'' ''-16.0'' ''192k''
          (start [exited 0 clip_stdout [], exited 1 [] ''measure: boom'']))
     = Inl (RuntimeError ''ffmpeg loudnorm measure failed:\<newline>measure: boom'')"
    by simp
  let ?s1 = "\<lparr>world = [exited 0 [] (analysis_log sample_report), exited 1 [] ''encode: boom''],
               calls = [ffprobe_argv ''clip.mp4'']\<rparr>"
  let ?s2 = "\<lparr>world = [exited 1 [] ''encode: boom''],
               calls = [ffprobe_argv ''clip.mp4'']
                 @ [measure_argv ''clip.mp4'' (measure_af ?P build_base_filters ''-16.0'')]\<rparr>"
  let ?argv = "apply_argv ''clip.mp4'' ''out.mp4''
                 (build_base_filters @ '','' @ loudnorm_apply ?P ''-16.0'' sample_stats) ''192k''"
  have h3: "ffprobe_json ?P ''clip.mp4''
              (start [exited 0 clip_stdout [], exited 0 [] (analysis_log sample_report),
                      exited 1 [] ''encode: boom''])
              = (Inr clip_meta, ?s1)
            \<and> pick_audio_stream clip_meta = Inr (Some (JObj [(''codec_type'', JStr ''audio'')]))
            \<and> measure_loudnorm ?P ''clip.mp4'' build_base_filters ''-16.0'' ?s1
                = (Inr sample_stats, ?s2)
            \<and> spawn ?P (world ?s2) ?argv = (Inr ?c3, [])
            \<and> exit_code ?c3 \<noteq> 0"
    by (intro conjI, rule sample_probe, rule pick_clip_meta, rule sample_measure,
        simp add: scripted_spawn exited_def, simp)
  have "clean_video ?P ''clip.mp4'' ''out.mp4'' ''-16.0'' ''192k''
          (start [exited 0 clip_stdout [], exited 0 [] (analysis_log sample_report),
                  exited 1 [] ''encode: boom''])
        = (Inl (RuntimeError (''ffmpeg clean failed:\<newline>'' @ err_text ?c3)),
           \<lparr>world = [], calls = calls ?s2 @ [?argv]\<rparr>)"
    by (rule T [THEN conjunct2, THEN conjunct2, THEN mp, OF h3])
  then have c: "fst (clean_video ?P ''clip.mp4'' ''out.mp4'' ''-16.0'' ''192k''
          (start [exited 0 clip_stdout [], exited 0 [] (analysis_log sample_report),
                  exited 1 [] ''encode: boom'']))
     = Inl (RuntimeError ''ffmpeg clean failed:\<newline>encode: boom'')"
    by simp
  from a b c show ?thesis by simp
qed

subsection \<open>C4: an analysis without a usable report\<close>

text \<open>
  C4 as stated fails: when the block is found and decodes to an object that lacks one of
  the five fields, the error is not the one the measurement stage raises for its own
  failures.  A report with \<^verbatim>\<open>input_i\<close> only makes \<open>clean_video\<close> raise
  \<^verbatim>\<open>KeyError('input_tp')\<close>, whereas a diagnostic text without any block makes it raise
  \<^verbatim>\<open>RuntimeError\<close>.
\<close>

theorem missing_field_raises_KeyError:
  "fst (clean_video (scripted sample_table) ''clip.mp4'' ''out.mp4'' ''-16.0'' ''192k''
          (start [exited 0 clip_stdout [], exited 0 [] (analysis_log partial_report),
                  exited 0 [] []]))
     = Inl (KeyError ''input_tp'')
   \<and> raised_class
       (fst (clean_video (scripted sample_table) ''clip.mp4'' ''out.mp4'' ''-16.0'' ''192k''
          (start [exited 0 clip_stdout [], exited 0 [] (analysis_log partial_report),
                  exited 0 [] []])))
     \<noteq> raised_class
       (fst (clean_video (scripted sample_table) ''clip.mp4'' ''out.mp4'' ''-16.0'' ''192k''
          (start [exited 0 clip_stdout [], exited 0 [] ''no report'', exited 0 [] []])))"
proof -
  let ?P = "scripted sample_table"
  have m: "measure_loudnorm ?P ''clip.mp4'' build_base_filters ''-16.0''
             \<lparr>world = [exited 0 [] (analysis_log partial_report), exited 0 [] []],
              calls = [ffprobe_argv ''clip.mp4'']\<rparr>
           = (Inl (KeyError ''input_tp''),
              \<lparr>world = [exited 0 [] []],
               calls = [ffprobe_argv ''clip.mp4'']
                 @ [measure_argv ''clip.mp4'' (measure_af ?P build_base_filters ''-16.0'')]\<rparr>)"
    using scripted_measure [OF re_search_partial_log, of sample_table]
    by (simp add: stats_of_partial_report)
  have a: "fst (clean_video ?P ''clip.mp4'' ''out.mp4'' ''-16.0'' ''192k''
          (start [exited 0 clip_stdout [], exited 0 [] (analysis_log partial_report),
                  exited 0 [] []]))
     = Inl (KeyError ''input_tp'')"
    unfolding clean_video_measure [OF sample_probe pick_clip_meta m] by simp
  have m': "measure_loudnorm ?P ''clip.mp4'' build_base_filters ''-16.0''
             \<lparr>world = [exited 0 [] ''no report'', exited 0 [] []],
              calls = [ffprobe_argv ''clip.mp4'']\<rparr>
           = (Inl (RuntimeError
                     (''Could not parse loudnorm json from ffmpeg output:\<newline>''
                        @ ''no report'')),
              \<lparr>world = [exited 0 [] []],
               calls = [ffprobe_argv ''clip.mp4'']
                 @ [measure_argv ''clip.mp4'' (measure_af ?P build_base_filters ''-16.0'')]\<rparr>)"
    by (simp add: measure_loudnorm_eq scripted_spawn exited_def)
  have b: "fst (clean_video ?P ''clip.mp4'' ''out.mp4'' ''-16.0'' ''192k''
          (start [exited 0 clip_stdout [], exited 0 [] ''no report'', exited 0 [] []]))
     = Inl (RuntimeError
              (''Could not parse loudnorm json from ffmpeg output:\<newline>'' @ ''no report''))"
    unfolding clean_video_measure [OF sample_probe pick_clip_meta m'] by simp
  show ?thesis unfolding a b by simp
qed

lemma stats_of_block_missing:
  assumes "json_decode P block = Some (JObj kvs)"
    and "find (\<lambda>k. map_of kvs k = None) loudnorm_fields = Some k"
  shows "stats_of_block P block = Inl (KeyError k)"
  using assms
  by (auto simp: stats_of_block_def json_loads_def loudnorm_fields_def
        split: if_splits option.splits)

lemma stats_of_block_undecodable:
  "json_decode P block = None \<Longrightarrow> stats_of_block P block = Inl JSONDecodeError"
  by (simp add: stats_of_block_def json_loads_def)

lemma stats_of_block_no_object:
  "json_decode P block = Some v \<Longrightarrow> \<not> is_dict v \<Longrightarrow> stats_of_block P block = Inl TypeError"
  by (cases v) (simp_all add: stats_of_block_def json_loads_def)

lemma stats_of_block_complete:
  assumes "json_decode P block = Some (JObj kvs)"
    and "find (\<lambda>k. map_of kvs k = None) loudnorm_fields = None"
  shows "\<exists>stats. stats_of_block P block = Inr stats"
  using assms
  by (auto simp: stats_of_block_def json_loads_def loudnorm_fields_def
        split: if_splits option.splits)

text \<open>
  C4, amended.  After a successful probe that found an audio stream and an analysis that
  exits with code 0: if the diagnostic text has no brace-delimited block, \<open>clean_video\<close>
  raises \<^verbatim>\<open>RuntimeError\<close> with the message
  \<^verbatim>\<open>Could not parse loudnorm json from ffmpeg output:\<close>, a line break and that text; if the
  block does not give the five fields \<^verbatim>\<open>input_i\<close>, \<^verbatim>\<open>input_tp\<close>, \<^verbatim>\<open>input_lra\<close>,
  \<^verbatim>\<open>input_thresh\<close>, \<^verbatim>\<open>target_offset\<close>, it raises a built-in exception instead of that
  \<^verbatim>\<open>RuntimeError\<close>: \<^verbatim>\<open>KeyError\<close> for the first missing field when the block decodes to an
  object, \<^verbatim>\<open>JSONDecodeError\<close> when the block does not decode, \<^verbatim>\<open>TypeError\<close> when it decodes
  to something that is not an object.  A block that decodes to an object with the five
  fields is the only one the analysis accepts.  Whatever the analysis raises,
  \<open>clean_video\<close> raises it in the state the analysis left: the analysis is the last call
  of the run and the encode command is not invoked.
\<close>

theorem unusable_report_fails_before_encode:
  assumes "ffprobe_json P inp st = (Inr meta, st1)"
    and "pick_audio_stream meta = Inr (Some a)"
    and "spawn P (world st1) (measure_argv inp (measure_af P build_base_filters t)) = (Inr c, w)"
    and "exit_code c = 0"
  shows "(re_search (err_text c) = None
          \<longrightarrow> clean_video P inp out t br st
                = (Inl (RuntimeError
                          (''Could not parse loudnorm json from ffmpeg output:\<newline>''
                             @ err_text c)),
                   \<lparr>world = w,
                    calls = calls st
                      @ [ffprobe_argv inp,
                         measure_argv inp (measure_af P build_base_filters t)]\<rparr>))
       \<and> (re_search (err_text c) = Some block \<and> json_decode P block = Some (JObj kvs)
            \<and> find (\<lambda>k. map_of kvs k = None) loudnorm_fields = Some k
          \<longrightarrow> clean_video P inp out t br st
                = (Inl (KeyError k),
                   \<lparr>world = w,
                    calls = calls st
                      @ [ffprobe_argv inp,
                         measure_argv inp (measure_af P build_base_filters t)]\<rparr>))
       \<and> (re_search (err_text c) = Some block \<and> json_decode P block = None
          \<longrightarrow> clean_video P inp out t br st
                = (Inl JSONDecodeError,
                   \<lparr>world = w,
                    calls = calls st
                      @ [ffprobe_argv inp,
                         measure_argv inp (measure_af P build_base_filters t)]\<rparr>))
       \<and> (re_search (err_text c) = Some block \<and> json_decode P block = Some v \<and> \<not> is_dict v
          \<longrightarrow> clean_video P inp out t br st
                = (Inl TypeError,
                   \<lparr>world = w,
                    calls = calls st
                      @ [ffprobe_argv inp,
                         measure_argv inp (measure_af P build_base_filters t)]\<rparr>))
       \<and> (re_search (err_text c) = Some block \<and> json_decode P block = Some (JObj kvs)
            \<and> find (\<lambda>k. map_of kvs k = None) loudnorm_fields = None
          \<longrightarrow> (\<exists>stats. fst (measure_loudnorm P inp build_base_filters t st1) = Inr stats))
       \<and> (fst (measure_loudnorm P inp build_base_filters t st1) = Inl e
          \<longrightarrow> clean_video P inp out t br st
                = (Inl e,
                   \<lparr>world = w,
                    calls = calls st
                      @ [ffprobe_argv inp,
                         measure_argv inp (measure_af P build_base_filters t)]\<rparr>))"
proof -
  have c1: "calls st1 = calls st @ [ffprobe_argv inp]"
    using ffprobe_json_calls [of P inp st] assms(1) by simp
  let ?st2 = "\<lparr>world = w,
               calls = calls st
                 @ [ffprobe_argv inp, measure_argv inp (measure_af P build_base_filters t)]\<rparr>"
  have m: "measure_loudnorm P inp build_base_filters t st1
             = ((case re_search (err_text c) of
                   None \<Rightarrow>
                     Inl (RuntimeError
                            (''Could not parse loudnorm json from ffmpeg output:\<newline>''
                               @ err_text c))
                 | Some block \<Rightarrow> stats_of_block P block), ?st2)"
    by (simp add: measure_loudnorm_eq assms(3,4) c1)
  have gen: "clean_video P inp out t br st = (Inl x, ?st2)"
    if "fst (measure_loudnorm P inp build_base_filters t st1) = Inl x" for x
  proof -
    from m that have "measure_loudnorm P inp build_base_filters t st1 = (Inl x, ?st2)"
      by simp
    with assms(1,2) show ?thesis by (rule clean_video_measure)
  qed
  show ?thesis
  proof (intro conjI impI)
    assume "re_search (err_text c) = None"
    with m have "fst (measure_loudnorm P inp build_base_filters t st1)
                   = Inl (RuntimeError
                            (''Could not parse loudnorm json from ffmpeg output:\<newline>''
                               @ err_text c))"
      by simp
    then show "clean_video P inp out t br st
                = (Inl (RuntimeError
                          (''Could not parse loudnorm json from ffmpeg output:\<newline>''
                             @ err_text c)), ?st2)"
      by (rule gen)
  next
    assume h: "re_search (err_text c) = Some block \<and> json_decode P block = Some (JObj kvs)
            \<and> find (\<lambda>k. map_of kvs k = None) loudnorm_fields = Some k"
    then have "stats_of_block P block = Inl (KeyError k)"
      by (simp add: stats_of_block_missing)
    with h m have "fst (measure_loudnorm P inp build_base_filters t st1) = Inl (KeyError k)"
      by simp
    then show "clean_video P inp out t br st = (Inl (KeyError k), ?st2)"
      by (rule gen)
  next
    assume h: "re_search (err_text c) = Some block \<and> json_decode P block = None"
    then have "stats_of_block P block = Inl JSONDecodeError"
      by (simp add: stats_of_block_undecodable)
    with h m have "fst (measure_loudnorm P inp build_base_filters t st1) = Inl JSONDecodeError"
      by simp
    then show "clean_video P inp out t br st = (Inl JSONDecodeError, ?st2)"
      by (rule gen)
  next
    assume h: "re_search (err_text c) = Some block \<and> json_decode P block = Some v
            \<and> \<not> is_dict v"
    then have "stats_of_block P block = Inl TypeError"
      by (simp add: stats_of_block_no_object)
    with h m have "fst (measure_loudnorm P inp build_base_filters t st1) = Inl TypeError"
      by simp
    then show "clean_video P inp out t br st = (Inl TypeError, ?st2)"
      by (rule gen)
  next
    assume h: "re_search (err_text c) = Some block \<and> json_decode P block = Some (JObj kvs)
            \<and> find (\<lambda>k. map_of kvs k = None) loudnorm_fields = None"
    then obtain stats where "stats_of_block P block = Inr stats"
      using stats_of_block_complete [of P block kvs] by blast
    with h m have "fst (measure_loudnorm P inp build_base_filters t st1) = Inr stats"
      by simp
    then show "\<exists>stats. fst (measure_loudnorm P inp build_base_filters t st1) = Inr stats"
      by (rule exI)
  next
    assume "fst (measure_loudnorm P inp build_base_filters t st1) = Inl e"
    then show "clean_video P inp out t br st = (Inl e, ?st2)"
      by (rule gen)
  qed
qed

text \<open>
  Three runs: a diagnostic text without a block, a report that has \<^verbatim>\<open>input_i\<close> only, and
  a block that does not decode.  None reaches the encode.
\<close>

theorem unusable_report_fails_before_encode_witness:
  "clean_video (scripted sample_table) ''clip.mp4'' ''out.mp4'' ''-16.0'' ''192k''
     (start [exited 0 clip_stdout [], exited 0 [] ''no report'', exited 0 [] []])
   = (Inl (RuntimeError ''Could not parse loudnorm json from ffmpeg output:\<newline>no report''),
      \<lparr>world = [exited 0 [] []],
       calls = [ffprobe_argv ''clip.mp4'',
                measure_argv ''clip.mp4''
                  (measure_af (scripted sample_table) build_base_filters ''-16.0'')]\<rparr>)
   \<and> clean_video (scripted sample_table) ''clip.mp4'' ''out.mp4'' ''-16.0'' ''192k''
     (start [exited 0 clip_stdout [], exited 0 [] (analysis_log partial_report), exited 0 [] []])
   = (Inl (KeyError ''input_tp''),
      \<lparr>world = [exited 0 [] []],
       calls = [ffprobe_argv ''clip.mp4'',
                measure_argv ''clip.mp4''
                  (measure_af (scripted sample_table) build_base_filters ''-16.0'')]\<rparr>)
   \<and> clean_video (scripted sample_table) ''clip.mp4'' ''out.mp4'' ''-16.0'' ''192k''
     (start [exited 0 clip_stdout [], exited 0 [] ''log {oops} end'', exited 0 [] []])
   = (Inl JSONDecodeError,
      \<lparr>world = [exited 0 [] []],
       calls = [ffprobe_argv ''clip.mp4'',
                measure_argv ''clip.mp4''
                  (measure_af (scripted sample_table) build_base_filters ''-16.0'')]\<rparr>)"
proof -
  let ?P = "scripted sample_table"
  let ?argv = "measure_argv ''clip.mp4'' (measure_af ?P build_base_filters ''-16.0'')"
  let ?c = "\<lparr>exit_code = 0, out_text = [], err_text = ''no report''\<rparr>"
  let ?d = "\<lparr>exit_code = 0, out_text = [], err_text = analysis_log partial_report\<rparr>"
  let ?o = "\<lparr>exit_code = 0, out_text = [], err_text = ''log {oops} end''\<rparr>"
  have s1: "spawn ?P (world \<lparr>world = [exited 0 [] ''no report'', exited 0 [] []],
                              calls = [ffprobe_argv ''clip.mp4'']\<rparr>) ?argv
              = (Inr ?c, [exited 0 [] []])"
    by (simp add: scripted_spawn exited_def)
  have z1: "exit_code ?c = 0" by simp
  have n1: "re_search (err_text ?c) = None" by simp
  have a: "clean_video ?P ''clip.mp4'' ''out.mp4'' ''-16.0'' ''192k''
     (start [exited 0 clip_stdout [], exited 0 [] ''no report'', exited 0 [] []])
   = (Inl (RuntimeError
             (''Could not parse loudnorm json from ffmpeg output:\<newline>'' @ err_text ?c)),
      \<lparr>world = [exited 0 [] []],
       calls = calls (start [exited 0 clip_stdout [], exited 0 [] ''no report'', exited 0 [] []])
                 @ [ffprobe_argv ''clip.mp4'', ?argv]\<rparr>)"
    by (rule unusable_report_fails_before_encode
               [OF sample_probe pick_clip_meta s1 z1, THEN conjunct1, THEN mp, OF n1])
  have s2: "spawn ?P (world \<lparr>world = [exited 0 [] (analysis_log partial_report), exited 0 [] []],
                              calls = [ffprobe_argv ''clip.mp4'']\<rparr>) ?argv
              = (Inr ?d, [exited 0 [] []])"
    by (simp add: scripted_spawn exited_def)
  have z2: "exit_code ?d = 0" by simp
  have n2: "re_search (err_text ?d) = Some partial_report
            \<and> json_decode ?P partial_report = Some (JObj [(''input_i'', JStr ''-23.1'')])
            \<and> find (\<lambda>k. map_of [(''input_i'', JStr ''-23.1'' :: string json)] k = None)
                 loudnorm_fields = Some ''input_tp''"
    using sample_decode(5)
    by (simp add: re_search_partial_log partial_report_json_def loudnorm_fields_def)
  have b: "clean_video ?P ''clip.mp4'' ''out.mp4'' ''-16.0'' ''192k''
     (start [exited 0 clip_stdout [], exited 0 [] (analysis_log partial_report), exited 0 [] []])
   = (Inl (KeyError ''input_tp''),
      \<lparr>world = [exited 0 [] []],
       calls = calls (start [exited 0 clip_stdout [], exited 0 [] (analysis_log partial_report),
                             exited 0 [] []])
                 @ [ffprobe_argv ''clip.mp4'', ?argv]\<rparr>)"
    by (rule unusable_report_fails_before_encode
               [OF sample_probe pick_clip_meta s2 z2, THEN conjunct2, THEN conjunct1, THEN mp,
                OF n2])
  have s3: "spawn ?P (world \<lparr>world = [exited 0 [] ''log {oops} end'', exited 0 [] []],
                              calls = [ffprobe_argv ''clip.mp4'']\<rparr>) ?argv
              = (Inr ?o, [exited 0 [] []])"
    by (simp add: scripted_spawn exited_def)
  have z3: "exit_code ?o = 0" by simp
  have n3: "re_search (err_text ?o) = Some ''{oops}'' \<and> json_decode ?P ''{oops}'' = None"
    by (simp add: scripted_def sample_table_def clip_stdout_def silent_stdout_def
          audio_only_stdout_def sample_report_def partial_report_def)
  have c: "clean_video ?P ''clip.mp4'' ''out.mp4'' ''-16.0'' ''192k''
     (start [exited 0 clip_stdout [], exited 0 [] ''log {oops} end'', exited 0 [] []])
   = (Inl JSONDecodeError,
      \<lparr>world = [exited 0 [] []],
       calls = calls (start [exited 0 clip_stdout [], exited 0 [] ''log {oops} end'',
                             exited 0 [] []])
                 @ [ffprobe_argv ''clip.mp4'', ?argv]\<rparr>)"
    by (rule unusable_report_fails_before_encode
               [OF sample_probe pick_clip_meta s3 z3, THEN conjunct2, THEN conjunct2,
                THEN conjunct1, THEN mp, OF n3])
  from a b c show ?thesis by (simp add: start_def)
qed

end
